theory Spec2Isabelle
  imports Complex_Main
begin

section \<open>Numbers, vectors and materials\<close>

text \<open>
  The C++ type \<^verbatim>\<open>double\<close> (and the \<^verbatim>\<open>float\<close> copies of the start point in
  \<^verbatim>\<open>ComputeMaxPathLengthPDG\<close>) is modelled by \<^typ>\<open>real\<close>: rounding is not
  modelled, comparisons and the order of the arithmetic are those of the source.
  A ray whose momentum has \<^verbatim>\<open>P() = 0\<close> is outside the model: the source divides by it.
\<close>

record TVector3 =
  fX :: real
  fY :: real
  fZ :: real

definition TVector3_valid_index :: "int \<Rightarrow> bool" where
  "TVector3_valid_index i = (0 \<le> i \<and> i \<le> 2)"

text \<open>
  \<^verbatim>\<open>v[i] += d\<close>. ROOT's \<^verbatim>\<open>TVector3::operator[]\<close> returns the component for
  \<^verbatim>\<open>i\<close> in 0, 1, 2; for any other index it reports "bad index" and returns a
  reference to \<^verbatim>\<open>fX\<close>.
\<close>

definition TVector3_add_at :: "int \<Rightarrow> real \<Rightarrow> TVector3 \<Rightarrow> TVector3" where
  "TVector3_add_at i d v =
     (if i = 0 then v\<lparr>fX := fX v + d\<rparr>
      else if i = 1 then v\<lparr>fY := fY v + d\<rparr>
      else if i = 2 then v\<lparr>fZ := fZ v + d\<rparr>
      else v\<lparr>fX := fX v + d\<rparr>)"

text \<open>A list of writes \<^verbatim>\<open>r[i] += d\<close>, performed from left to right.\<close>

definition TVector3_writes :: "(int \<times> real) list \<Rightarrow> TVector3 \<Rightarrow> TVector3" where
  "TVector3_writes ws v = fold (\<lambda>(i, d). TVector3_add_at i d) ws v"

record TLorentzVector =
  lvX :: real
  lvY :: real
  lvZ :: real
  lvT :: real

definition lvP :: "TLorentzVector \<Rightarrow> real" where
  "lvP p = sqrt (lvX p * lvX p + lvY p * lvY p + lvZ p * lvZ p)"

record TGeoElement =
  eleA :: real
  eleZ :: int

text \<open>A material; \<open>matElements\<close> is \<open>Some\<close> exactly for a \<^verbatim>\<open>TGeoMixture\<close>.\<close>

record TGeoMaterial =
  matA :: real
  matZ :: real
  matDensity :: real
  matElements :: "TGeoElement list option"

definition IsMixture :: "TGeoMaterial \<Rightarrow> bool" where
  "IsMixture mat = (matElements mat \<noteq> None)"

record TGeoMedium =
  medMaterial :: "TGeoMaterial option"

record TGeoBBox =
  boxDX :: real
  boxDY :: real
  boxDZ :: real
  boxOrigin :: TVector3

record TGeoVolume =
  volMedium :: "TGeoMedium option"
  volShape :: TGeoBBox

section \<open>The geometry oracle and the other external parts\<close>

text \<open>
  \<^verbatim>\<open>TGeoManager\<close> belongs to ROOT and \<^verbatim>\<open>pdg::IonPdgCode\<close> to a file that is not
  among the sources: both are parameters of the model. The navigator's cursor state is
  the abstract type \<open>'g\<close>; each member function the analyzer calls is a field.
\<close>

record 'g TGeoManager =
  SetCurrentDirection :: "real \<Rightarrow> real \<Rightarrow> real \<Rightarrow> 'g \<Rightarrow> 'g"
  SetCurrentPoint :: "real \<Rightarrow> real \<Rightarrow> real \<Rightarrow> 'g \<Rightarrow> 'g"
  FindNode :: "real \<Rightarrow> real \<Rightarrow> real \<Rightarrow> 'g \<Rightarrow> 'g"
  GetCurrentVolume :: "'g \<Rightarrow> TGeoVolume option"
  IsOutside :: "'g \<Rightarrow> bool"
  FindNextBoundary :: "'g \<Rightarrow> 'g"
  GetStep :: "'g \<Rightarrow> real"
  IsEntering :: "'g \<Rightarrow> bool"
  Step :: "'g \<Rightarrow> 'g"
  IonPdgCode :: "int \<Rightarrow> int \<Rightarrow> int"

text \<open>
  Modelled from the spec: \<^verbatim>\<open>RandomGen\<close> (Numerical/RandomGen.h) is not among the
  sources. The spec's random source is one shared stream of uniform draws consumed by
  every sampling operation; it is kept here as a fixed sequence of draws and the number of
  draws made so far, so that \<^verbatim>\<open>Rndm()\<close> returns the next draw.
\<close>

record RandomGen =
  draws :: "int \<Rightarrow> real"
  drawn :: int

definition Rndm :: "RandomGen \<Rightarrow> real \<times> RandomGen" where
  "Rndm rg = (draws rg (drawn rg), rg\<lparr>drawn := drawn rg + 1\<rparr>)"

section \<open>Path-length lists\<close>

text \<open>
  Modelled from the spec: \<^verbatim>\<open>PathLengthList\<close> (EVGDrivers/PathLengthList.h) is not among
  the sources. The spec's Path Length Record is a mapping from nuclide identifier to an
  accumulated length whose keys are fixed when the geometry is loaded; it is kept here as
  the list of its entries in key order. Adding to or scaling an absent key changes nothing.
\<close>

type_synonym PathLengthList = "(int \<times> real) list"

definition SetAllToZero :: "PathLengthList \<Rightarrow> PathLengthList" where
  "SetAllToZero pl = map (\<lambda>(k, v). (k, 0)) pl"

definition AddPathLength :: "int \<Rightarrow> real \<Rightarrow> PathLengthList \<Rightarrow> PathLengthList" where
  "AddPathLength pdgc x pl = map (\<lambda>(k, v). if k = pdgc then (k, v + x) else (k, v)) pl"

definition ScalePathLength :: "int \<Rightarrow> real \<Rightarrow> PathLengthList \<Rightarrow> PathLengthList" where
  "ScalePathLength pdgc scale pl = map (\<lambda>(k, v). if k = pdgc then (k, v * scale) else (k, v)) pl"

definition PathLength :: "PathLengthList \<Rightarrow> int \<Rightarrow> real" where
  "PathLength pl pdgc = (case map_of pl pdgc of None \<Rightarrow> 0 | Some v \<Rightarrow> v)"

definition AllZero :: "PathLengthList \<Rightarrow> bool" where
  "AllZero pl = list_all (\<lambda>(k, v). v = 0) pl"

section \<open>The analyzer\<close>

datatype error = NullPointer

record 'g ROOTGeomAnalyzer =
  fGeometry :: "'g option"
  fTopVolume :: "TGeoVolume option"
  fCurrPathLengthList :: "PathLengthList option"
  fCurrMaxPathLengthList :: "PathLengthList option"
  fCurrPDGCodeList :: "int list option"
  fCurrVertex :: "TVector3 option"
  fScale :: real
  fNPoints :: int
  fNRays :: int
  fDensWeight :: bool

text \<open>\<^verbatim>\<open>int(x)\<close> for a double: truncation towards zero.\<close>

definition int_of_double :: "real \<Rightarrow> int" where
  "int_of_double x = (if 0 \<le> x then \<lfloor>x\<rfloor> else \<lceil>x\<rceil>)"

definition GetTargetPdgCode :: "'g TGeoManager \<Rightarrow> TGeoMaterial \<Rightarrow> int" where
  "GetTargetPdgCode G m = IonPdgCode G (int_of_double (matA m)) (int_of_double (matZ m))"

definition GetTargetPdgCodeEle :: "'g TGeoManager \<Rightarrow> TGeoElement \<Rightarrow> int" where
  "GetTargetPdgCodeEle G e = IonPdgCode G (int_of_double (eleA e)) (eleZ e)"

definition GetWeight :: "('g, 'x) ROOTGeomAnalyzer_scheme \<Rightarrow> TGeoMaterial \<Rightarrow> real" where
  "GetWeight s mat = (if fDensWeight s then matDensity mat else 1.0)"

text \<open>
  The literals of the source denote doubles: \<^verbatim>\<open>9.99E29\<close> is the double whose value is
  999000000000000020146215190528, and ROOT's largest step \<^verbatim>\<open>1E30\<close> is the double
  1000000000000000019884624838656.
\<close>

definition double_9_99E29 :: real where
  "double_9_99E29 = 999000000000000020146215190528"

definition double_1E30 :: real where
  "double_1E30 = 1000000000000000019884624838656"

definition WillNeverEnter :: "real \<Rightarrow> bool" where
  "WillNeverEnter step = (if step > double_9_99E29 then True else False)"

text \<open>\<^verbatim>\<open>for (pliter = pl.begin(); ...) pl.ScalePathLength(pliter->first, fScale)\<close>\<close>

definition ScalePathLengths :: "('g, 'x) ROOTGeomAnalyzer_scheme \<Rightarrow> PathLengthList \<Rightarrow> PathLengthList" where
  "ScalePathLengths s pl = fold (\<lambda>pdgc acc. ScalePathLength pdgc (fScale s) acc) (map fst pl) pl"

section \<open>Iteration\<close>

text \<open>
  A \<^verbatim>\<open>while\<close> loop: the body either continues with a new loop state (\<open>Inl\<close>) or leaves
  the loop with a result (\<open>Inr\<close>); a body that does not return, or a loop that runs for
  ever, is \<open>None\<close>.
\<close>

partial_function (option) while_loop :: "('s \<Rightarrow> ('s + 'r) option) \<Rightarrow> 's \<Rightarrow> 'r option" where
  "while_loop body s =
     (case body s of
        None \<Rightarrow> None
      | Some (Inl s') \<Rightarrow> while_loop body s'
      | Some (Inr r) \<Rightarrow> Some r)"


text \<open>
  The fragment that every traversal repeats:
  \<^verbatim>\<open>FindNextBoundary(); step = GetStep(); while (!IsEntering()) { Step(); step = GetStep(); }\<close>
\<close>

fun step_while_not_entering :: "'g TGeoManager \<Rightarrow> 'g \<times> real \<Rightarrow> (('g \<times> real) + ('g \<times> real)) option" where
  "step_while_not_entering G (g, step) =
     (if \<not> IsEntering G g
      then (let g' = Step G g in Some (Inl (g', GetStep G g')))
      else Some (Inr (g, step)))"

definition next_boundary_step :: "'g TGeoManager \<Rightarrow> 'g \<Rightarrow> ('g \<times> real) option" where
  "next_boundary_step G g =
     (let g' = FindNextBoundary G g
      in while_loop (step_while_not_entering G) (g', GetStep G g'))"

section \<open>ComputePathLengths\<close>

text \<open>The position update \<^verbatim>\<open>r[0] += (step * p.Px()/p.P()); r[1] += ...; r[2] += ...\<close>\<close>

definition cpl_advance_writes :: "real \<Rightarrow> TLorentzVector \<Rightarrow> (int \<times> real) list" where
  "cpl_advance_writes step p =
     [(0, step * lvX p / lvP p), (1, step * lvY p / lvP p), (2, step * lvZ p / lvP p)]"

text \<open>The entry-seeking loop of \<^verbatim>\<open>ComputePathLengths\<close>, the only one that asks
  \<^verbatim>\<open>WillNeverEnter\<close>; \<open>NeverEnters\<close> is its \<^verbatim>\<open>return *fCurrPathLengthList\<close>.\<close>

datatype 'g seek_result = Entered 'g real | NeverEnters 'g

fun cpl_seek_body :: "'g TGeoManager \<Rightarrow> 'g \<times> real \<Rightarrow> (('g \<times> real) + 'g seek_result) option" where
  "cpl_seek_body G (g, step) =
     (if \<not> IsEntering G g
      then (let g' = Step G g; step' = GetStep G g'
            in if WillNeverEnter step' then Some (Inr (NeverEnters g'))
               else Some (Inl (g', step')))
      else Some (Inr (Entered g step)))"

definition cpl_seek_entry :: "'g TGeoManager \<Rightarrow> 'g \<Rightarrow> 'g seek_result option" where
  "cpl_seek_entry G g =
     (let g' = FindNextBoundary G g
      in while_loop (cpl_seek_body G) (g', GetStep G g'))"

text \<open>The \<^verbatim>\<open>for (int i = 0; i < Nelements; i++)\<close> loop over the elements of a mixture;
  the loop state is the position, the navigator and the list.\<close>

fun cpl_mixture_elements ::
  "'g TGeoManager \<Rightarrow> ('g, 'x) ROOTGeomAnalyzer_scheme \<Rightarrow> TLorentzVector \<Rightarrow> TGeoMaterial \<Rightarrow>
   TGeoElement list \<Rightarrow> TVector3 \<times> 'g \<times> PathLengthList \<Rightarrow> (TVector3 \<times> 'g \<times> PathLengthList) option" where
  "cpl_mixture_elements G s p mat [] st = Some st"
| "cpl_mixture_elements G s p mat (ele # eles) (r, g, pl) =
     (let ion_pdgc = GetTargetPdgCodeEle G ele; weight = GetWeight s mat
      in case next_boundary_step G g of
           None \<Rightarrow> None
         | Some (g', step) \<Rightarrow>
             cpl_mixture_elements G s p mat eles
               (TVector3_writes (cpl_advance_writes step p) r, g',
                AddPathLength ion_pdgc (step * weight) pl))"

text \<open>How the main loop is left: the loop ends or breaks (the list is then rescaled), the
  entry-seeking loop returns early, or a null pointer is dereferenced.\<close>

datatype 'g cpl_exit = Finished 'g PathLengthList | ReturnedEarly 'g PathLengthList | Crashed

text \<open>
  One pass through \<^verbatim>\<open>while ((!FlagNotInYet) || condition)\<close>. The loop state is
  (FlagNotInYet, condition, r, navigator, list). The debug log line
  \<^verbatim>\<open>vol->GetName()\<close> dereferences \<^verbatim>\<open>vol\<close> before the test \<^verbatim>\<open>!vol\<close>.
\<close>

fun cpl_body ::
  "'g TGeoManager \<Rightarrow> ('g, 'x) ROOTGeomAnalyzer_scheme \<Rightarrow> TLorentzVector \<Rightarrow>
   bool \<times> bool \<times> TVector3 \<times> 'g \<times> PathLengthList \<Rightarrow>
   ((bool \<times> bool \<times> TVector3 \<times> 'g \<times> PathLengthList) + 'g cpl_exit) option" where
  "cpl_body G s p (FlagNotInYet, condition, r, g, pl) =
     (if \<not> (\<not> FlagNotInYet \<or> condition) then Some (Inr (Finished g pl))
      else
        let g1 = FindNode G (fX r) (fY r) (fZ r) (SetCurrentPoint G (fX r) (fY r) (fZ r) g);
            vol = GetCurrentVolume G g1
        in case vol of
             None \<Rightarrow> Some (Inr Crashed)
           | Some v \<Rightarrow>
               if IsOutside G g1 \<or> vol = None then
                 (if FlagNotInYet then Some (Inr (Finished g1 pl))
                  else case cpl_seek_entry G g1 of
                         None \<Rightarrow> None
                       | Some (NeverEnters g2) \<Rightarrow> Some (Inr (ReturnedEarly g2 pl))
                       | Some (Entered g2 step) \<Rightarrow>
                           Some (Inl (FlagNotInYet, False,
                                      TVector3_writes (cpl_advance_writes step p) r, g2, pl)))
               else
                 (case volMedium v of
                    None \<Rightarrow> Some (Inl (True, False, r, g1, pl))
                  | Some med \<Rightarrow>
                      (case medMaterial med of
                         None \<Rightarrow> Some (Inl (True, False, r, g1, pl))
                       | Some mat \<Rightarrow>
                           (case matElements mat of
                              Some eles \<Rightarrow>
                                (case cpl_mixture_elements G s p mat eles (r, g1, pl) of
                                   None \<Rightarrow> None
                                 | Some (r', g2, pl') \<Rightarrow> Some (Inl (True, True, r', g2, pl')))
                            | None \<Rightarrow>
                                (let ion_pdgc = GetTargetPdgCode G mat; weight = GetWeight s mat
                                 in case next_boundary_step G g1 of
                                      None \<Rightarrow> None
                                    | Some (g2, step) \<Rightarrow>
                                        Some (Inl (True, True,
                                                   TVector3_writes (cpl_advance_writes step p) r, g2,
                                                   AddPathLength ion_pdgc (step * weight) pl)))))))"

text \<open>The traversal of \<^verbatim>\<open>ComputePathLengths\<close> on an already reset list.\<close>

definition cpl_traverse ::
  "'g TGeoManager \<Rightarrow> ('g, 'x) ROOTGeomAnalyzer_scheme \<Rightarrow> 'g \<Rightarrow> PathLengthList \<Rightarrow>
   TLorentzVector \<Rightarrow> TLorentzVector \<Rightarrow> 'g cpl_exit option" where
  "cpl_traverse G s g pl x p =
     (let r = \<lparr>fX = lvX x, fY = lvY x, fZ = lvZ x\<rparr>;
          g0 = SetCurrentDirection G (lvX p / lvP p) (lvY p / lvP p) (lvZ p / lvP p) g
      in while_loop (cpl_body G s p) (False, True, r, g0, pl))"

text \<open>
  \<^verbatim>\<open>ComputePathLengths(x, p)\<close>: the result is the analyzer after the call, whose
  \<open>fCurrPathLengthList\<close> is the list the call returns a reference to. The function has no
  test of \<^verbatim>\<open>fGeometry\<close>: it dereferences \<^verbatim>\<open>fCurrPathLengthList\<close> and then
  \<^verbatim>\<open>fGeometry\<close>.
\<close>

definition ComputePathLengths ::
  "'g TGeoManager \<Rightarrow> 'g ROOTGeomAnalyzer \<Rightarrow> TLorentzVector \<Rightarrow> TLorentzVector \<Rightarrow>
   (error + 'g ROOTGeomAnalyzer) option" where
  "ComputePathLengths G s x p =
     (case fCurrPathLengthList s of
        None \<Rightarrow> Some (Inl NullPointer)
      | Some pl0 \<Rightarrow>
          (case fGeometry s of
             None \<Rightarrow> Some (Inl NullPointer)
           | Some g \<Rightarrow>
               (case cpl_traverse G s g (SetAllToZero pl0) x p of
                  None \<Rightarrow> None
                | Some Crashed \<Rightarrow> Some (Inl NullPointer)
                | Some (ReturnedEarly g' pl) \<Rightarrow>
                    Some (Inr (s\<lparr>fGeometry := Some g', fCurrPathLengthList := Some pl\<rparr>))
                | Some (Finished g' pl) \<Rightarrow>
                    Some (Inr (s\<lparr>fGeometry := Some g',
                                 fCurrPathLengthList := Some (ScalePathLengths s pl)\<rparr>)))))"


section \<open>The segments of a traversal\<close>

text \<open>
  The traversal of \<^verbatim>\<open>ComputePathLengths\<close> with the list left out: the same navigation
  calls in the same order, collecting at each call of \<^verbatim>\<open>AddPathLength\<close> the segment
  that is being recorded: its nuclide code, its length (the \<^verbatim>\<open>step\<close> the navigator
  reported) and its material.
\<close>

type_synonym segment = "int \<times> real \<times> TGeoMaterial"

fun cpl_mixture_segments ::
  "'g TGeoManager \<Rightarrow> TLorentzVector \<Rightarrow> TGeoMaterial \<Rightarrow> TGeoElement list \<Rightarrow>
   TVector3 \<times> 'g \<times> segment list \<Rightarrow> (TVector3 \<times> 'g \<times> segment list) option" where
  "cpl_mixture_segments G p mat [] st = Some st"
| "cpl_mixture_segments G p mat (ele # eles) (r, g, segs) =
     (let ion_pdgc = GetTargetPdgCodeEle G ele
      in case next_boundary_step G g of
           None \<Rightarrow> None
         | Some (g', step) \<Rightarrow>
             cpl_mixture_segments G p mat eles
               (TVector3_writes (cpl_advance_writes step p) r, g',
                segs @ [(ion_pdgc, step, mat)]))"

datatype 'g seg_exit = SegFinished 'g "segment list" | SegReturnedEarly 'g "segment list" | SegCrashed

fun seg_body ::
  "'g TGeoManager \<Rightarrow> TLorentzVector \<Rightarrow>
   bool \<times> bool \<times> TVector3 \<times> 'g \<times> segment list \<Rightarrow>
   ((bool \<times> bool \<times> TVector3 \<times> 'g \<times> segment list) + 'g seg_exit) option" where
  "seg_body G p (FlagNotInYet, condition, r, g, segs) =
     (if \<not> (\<not> FlagNotInYet \<or> condition) then Some (Inr (SegFinished g segs))
      else
        let g1 = FindNode G (fX r) (fY r) (fZ r) (SetCurrentPoint G (fX r) (fY r) (fZ r) g);
            vol = GetCurrentVolume G g1
        in case vol of
             None \<Rightarrow> Some (Inr SegCrashed)
           | Some v \<Rightarrow>
               if IsOutside G g1 \<or> vol = None then
                 (if FlagNotInYet then Some (Inr (SegFinished g1 segs))
                  else case cpl_seek_entry G g1 of
                         None \<Rightarrow> None
                       | Some (NeverEnters g2) \<Rightarrow> Some (Inr (SegReturnedEarly g2 segs))
                       | Some (Entered g2 step) \<Rightarrow>
                           Some (Inl (FlagNotInYet, False,
                                      TVector3_writes (cpl_advance_writes step p) r, g2, segs)))
               else
                 (case volMedium v of
                    None \<Rightarrow> Some (Inl (True, False, r, g1, segs))
                  | Some med \<Rightarrow>
                      (case medMaterial med of
                         None \<Rightarrow> Some (Inl (True, False, r, g1, segs))
                       | Some mat \<Rightarrow>
                           (case matElements mat of
                              Some eles \<Rightarrow>
                                (case cpl_mixture_segments G p mat eles (r, g1, segs) of
                                   None \<Rightarrow> None
                                 | Some (r', g2, segs') \<Rightarrow> Some (Inl (True, True, r', g2, segs')))
                            | None \<Rightarrow>
                                (let ion_pdgc = GetTargetPdgCode G mat
                                 in case next_boundary_step G g1 of
                                      None \<Rightarrow> None
                                    | Some (g2, step) \<Rightarrow>
                                        Some (Inl (True, True,
                                                   TVector3_writes (cpl_advance_writes step p) r, g2,
                                                   segs @ [(ion_pdgc, step, mat)])))))))"

definition cpl_segments ::
  "'g TGeoManager \<Rightarrow> 'g \<Rightarrow> TLorentzVector \<Rightarrow> TLorentzVector \<Rightarrow> 'g seg_exit option" where
  "cpl_segments G g x p =
     (let r = \<lparr>fX = lvX x, fY = lvY x, fZ = lvZ x\<rparr>;
          g0 = SetCurrentDirection G (lvX p / lvP p) (lvY p / lvP p) (lvZ p / lvP p) g
      in while_loop (seg_body G p) (False, True, r, g0, []))"

text \<open>The list after the segments \<open>segs\<close> have been added with the weight \<open>w\<close>, the
  loop state and the loop result of \<^verbatim>\<open>ComputePathLengths\<close> that belong to a state and a
  result of the traversal above, and the length of the segments of a nuclide under a weight.\<close>

definition record_segments :: "(TGeoMaterial \<Rightarrow> real) \<Rightarrow> segment list \<Rightarrow> PathLengthList \<Rightarrow> PathLengthList" where
  "record_segments w segs pl = fold (\<lambda>(c, step, mat). AddPathLength c (step * w mat)) segs pl"

fun seg_state ::
  "(TGeoMaterial \<Rightarrow> real) \<Rightarrow> PathLengthList \<Rightarrow> bool \<times> bool \<times> TVector3 \<times> 'g \<times> segment list \<Rightarrow>
   bool \<times> bool \<times> TVector3 \<times> 'g \<times> PathLengthList" where
  "seg_state w pl (f, c, r, g, segs) = (f, c, r, g, record_segments w segs pl)"

fun seg_result :: "(TGeoMaterial \<Rightarrow> real) \<Rightarrow> PathLengthList \<Rightarrow> 'g seg_exit \<Rightarrow> 'g cpl_exit" where
  "seg_result w pl (SegFinished g segs) = Finished g (record_segments w segs pl)"
| "seg_result w pl (SegReturnedEarly g segs) = ReturnedEarly g (record_segments w segs pl)"
| "seg_result w pl SegCrashed = Crashed"

definition length_with :: "(TGeoMaterial \<Rightarrow> real) \<Rightarrow> int \<Rightarrow> segment list \<Rightarrow> real" where
  "length_with w k segs = (\<Sum>(c, step, mat) \<leftarrow> filter (\<lambda>(c, step, mat). c = k) segs. step * w mat)"

section \<open>GenerateVertex\<close>

text \<open>The position update of the first loop, as the source writes it:
  \<^verbatim>\<open>r[1] += (step * p.Px()/p.P()); r[2] += (step * p.Py()/p.P()); r[3] += (step * p.Pz()/p.P());\<close>\<close>

definition gv_advance_writes :: "real \<Rightarrow> TLorentzVector \<Rightarrow> (int \<times> real) list" where
  "gv_advance_writes step p =
     [(1, step * lvX p / lvP p), (2, step * lvY p / lvP p), (3, step * lvZ p / lvP p)]"

definition StepIncrease :: real where
  "StepIncrease = 0.001"

text \<open>The updates of the second loop (\<^verbatim>\<open>r[0] += ...\<close>) and after it (\<^verbatim>\<open>r[0] -= ...\<close>).\<close>

definition gv_walk_writes :: "TLorentzVector \<Rightarrow> (int \<times> real) list" where
  "gv_walk_writes p =
     [(0, StepIncrease * lvX p / lvP p), (1, StepIncrease * lvY p / lvP p),
      (2, StepIncrease * lvZ p / lvP p)]"

definition gv_back_writes :: "TLorentzVector \<Rightarrow> (int \<times> real) list" where
  "gv_back_writes p =
     [(0, - (StepIncrease * lvX p / lvP p)), (1, - (StepIncrease * lvY p / lvP p)),
      (2, - (StepIncrease * lvZ p / lvP p))]"

datatype 'g gv_exit = Total 'g real | GvCrashed

text \<open>One pass through the first loop; the loop state is
  (FlagNotInYet, condition, r, navigator, dist); \<open>dist\<close> is written \<open>dst\<close>.\<close>

fun gv_length_body ::
  "'g TGeoManager \<Rightarrow> ('g, 'x) ROOTGeomAnalyzer_scheme \<Rightarrow> TLorentzVector \<Rightarrow> int \<Rightarrow>
   bool \<times> bool \<times> TVector3 \<times> 'g \<times> real \<Rightarrow>
   ((bool \<times> bool \<times> TVector3 \<times> 'g \<times> real) + 'g gv_exit) option" where
  "gv_length_body G s p tgtpdg (FlagNotInYet, condition, r, g, dst) =
     (if \<not> (\<not> FlagNotInYet \<or> condition) then Some (Inr (Total g dst))
      else
        let g1 = FindNode G (fX r) (fY r) (fZ r) (SetCurrentPoint G (fX r) (fY r) (fZ r) g);
            vol = GetCurrentVolume G g1
        in case vol of
             None \<Rightarrow> Some (Inr GvCrashed)
           | Some v \<Rightarrow>
               if IsOutside G g1 \<or> vol = None then
                 (if FlagNotInYet then Some (Inr (Total g1 dst))
                  else case next_boundary_step G g1 of
                         None \<Rightarrow> None
                       | Some (g2, step) \<Rightarrow>
                           Some (Inl (FlagNotInYet, False,
                                      TVector3_writes (gv_advance_writes step p) r, g2, dst)))
               else
                 (case volMedium v of
                    None \<Rightarrow> Some (Inl (True, False, r, g1, dst))
                  | Some med \<Rightarrow>
                      (case medMaterial med of
                         None \<Rightarrow> Some (Inl (True, False, r, g1, dst))
                       | Some mat \<Rightarrow>
                           (let ion_pdgc = GetTargetPdgCode G mat; weight = GetWeight s mat
                            in case next_boundary_step G g1 of
                                 None \<Rightarrow> None
                               | Some (g2, step) \<Rightarrow>
                                   Some (Inl (True, True,
                                              TVector3_writes (gv_advance_writes step p) r, g2,
                                              if ion_pdgc = tgtpdg then dst + step * weight
                                              else dst))))))"

definition gv_length ::
  "'g TGeoManager \<Rightarrow> ('g, 'x) ROOTGeomAnalyzer_scheme \<Rightarrow> 'g \<Rightarrow> TLorentzVector \<Rightarrow>
   TLorentzVector \<Rightarrow> int \<Rightarrow> 'g gv_exit option" where
  "gv_length G s g x p tgtpdg =
     (let r = \<lparr>fX = lvX x, fY = lvY x, fZ = lvZ x\<rparr>;
          g0 = SetCurrentDirection G (lvX p / lvP p) (lvY p / lvP p) (lvZ p / lvP p) g
      in while_loop (gv_length_body G s p tgtpdg) (False, True, r, g0, 0))"

text \<open>One pass through the second loop; the loop state is
  (FlagNotInYet, condition, r, navigator, distToVtx); the result is \<open>None\<close> when the log
  line dereferences a null volume.\<close>

fun gv_walk_body ::
  "'g TGeoManager \<Rightarrow> ('g, 'x) ROOTGeomAnalyzer_scheme \<Rightarrow> TLorentzVector \<Rightarrow> int \<Rightarrow> real \<Rightarrow>
   bool \<times> bool \<times> TVector3 \<times> 'g \<times> real \<Rightarrow>
   ((bool \<times> bool \<times> TVector3 \<times> 'g \<times> real) + (TVector3 \<times> 'g) option) option" where
  "gv_walk_body G s p tgtpdg distVertex (FlagNotInYet, condition, r, g, distToVtx) =
     (if \<not> ((\<not> FlagNotInYet \<or> condition) \<and> distToVtx < distVertex) then Some (Inr (Some (r, g)))
      else
        let r1 = TVector3_writes (gv_walk_writes p) r;
            g1 = FindNode G (fX r1) (fY r1) (fZ r1) (SetCurrentPoint G (fX r1) (fY r1) (fZ r1) g);
            vol = GetCurrentVolume G g1
        in case vol of
             None \<Rightarrow> Some (Inr None)
           | Some v \<Rightarrow>
               if IsOutside G g1 \<or> vol = None then
                 (if FlagNotInYet then Some (Inr (Some (r1, g1)))
                  else Some (Inl (FlagNotInYet, False, r1, g1, distToVtx)))
               else
                 (case volMedium v of
                    None \<Rightarrow> Some (Inl (True, False, r1, g1, distToVtx))
                  | Some med \<Rightarrow>
                      (case medMaterial med of
                         None \<Rightarrow> Some (Inl (True, False, r1, g1, distToVtx))
                       | Some mat \<Rightarrow>
                           (let ion_pdgc = GetTargetPdgCode G mat; weight = GetWeight s mat
                            in Some (Inl (True, True, r1, g1,
                                          if ion_pdgc = tgtpdg then distToVtx + StepIncrease * weight
                                          else distToVtx))))))"

text \<open>
  \<^verbatim>\<open>GenerateVertex(x, p, tgtpdg)\<close>: the result is the analyzer after the call, whose
  \<open>fCurrVertex\<close> is the vertex the call returns a reference to, and the random source.
\<close>

definition GenerateVertex ::
  "'g TGeoManager \<Rightarrow> 'g ROOTGeomAnalyzer \<Rightarrow> RandomGen \<Rightarrow> TLorentzVector \<Rightarrow> TLorentzVector \<Rightarrow>
   int \<Rightarrow> (error + 'g ROOTGeomAnalyzer \<times> RandomGen) option" where
  "GenerateVertex G s rg x p tgtpdg =
     (case fCurrVertex s of
        None \<Rightarrow> Some (Inl NullPointer)
      | Some v0 \<Rightarrow>
          (let s1 = s\<lparr>fCurrVertex := Some \<lparr>fX = 0, fY = 0, fZ = 0\<rparr>\<rparr>
           in case fGeometry s1 of
                None \<Rightarrow> Some (Inr (s1, rg))
              | Some g \<Rightarrow>
                  (case gv_length G s1 g x p tgtpdg of
                     None \<Rightarrow> None
                   | Some GvCrashed \<Rightarrow> Some (Inl NullPointer)
                   | Some (Total g1 dst) \<Rightarrow>
                       if dst = 0 then Some (Inr (s1\<lparr>fGeometry := Some g1\<rparr>, rg))
                       else
                         (let (u, rg1) = Rndm rg;
                              distVertex = u * dst;
                              r = \<lparr>fX = lvX x, fY = lvY x, fZ = lvZ x\<rparr>
                          in case while_loop (gv_walk_body G s1 p tgtpdg distVertex)
                                    (False, True, r, g1, 0) of
                               None \<Rightarrow> None
                             | Some None \<Rightarrow> Some (Inl NullPointer)
                             | Some (Some (r', g2)) \<Rightarrow>
                                 Some (Inr (s1\<lparr>fGeometry := Some g2,
                                              fCurrVertex := Some (TVector3_writes (gv_back_writes p) r')\<rparr>,
                                            rg1))))))"

section \<open>ComputeMaxPathLengths\<close>

text \<open>One pass through the loop of \<^verbatim>\<open>ComputeMaxPathLengthPDG\<close>; the loop state is
  (counterloop, FlagNotInYet, condition, (xx, yy, zz), navigator, Length, weight).\<close>

fun cmpl_body ::
  "'g TGeoManager \<Rightarrow> ('g, 'x) ROOTGeomAnalyzer_scheme \<Rightarrow> TVector3 \<Rightarrow> int \<Rightarrow>
   int \<times> bool \<times> bool \<times> TVector3 \<times> 'g \<times> real \<times> real \<Rightarrow>
   ((int \<times> bool \<times> bool \<times> TVector3 \<times> 'g \<times> real \<times> real) + ('g \<times> real \<times> real)) option" where
  "cmpl_body G s direction pdgc (counterloop, FlagNotInYet, condition, xyz, g, Length, weight) =
     (if \<not> ((\<not> FlagNotInYet \<or> condition) \<and> counterloop < 100) then Some (Inr (g, Length, weight))
      else
        let g1 = FindNode G (fX xyz) (fY xyz) (fZ xyz)
                   (SetCurrentPoint G (fX xyz) (fY xyz) (fZ xyz) g);
            vol = GetCurrentVolume G g1
        in if IsOutside G g1 \<or> vol = None then
             (if FlagNotInYet then Some (Inr (g1, Length, weight))
              else case next_boundary_step G g1 of
                     None \<Rightarrow> None
                   | Some (g2, step) \<Rightarrow>
                       Some (Inl (counterloop + 1, FlagNotInYet, False,
                                  \<lparr>fX = fX xyz + step * fX direction,
                                   fY = fY xyz + step * fY direction,
                                   fZ = fZ xyz + step * fZ direction\<rparr>, g2, Length, weight)))
           else
             (case Option.bind vol volMedium of
                None \<Rightarrow> Some (Inl (counterloop + 1, True, False, xyz, g1, Length, weight))
              | Some med \<Rightarrow>
                  (case medMaterial med of
                     None \<Rightarrow> Some (Inl (counterloop + 1, True, False, xyz, g1, Length, weight))
                   | Some mat \<Rightarrow>
                       (let ion_pdgc = GetTargetPdgCode G mat
                        in case next_boundary_step G g1 of
                             None \<Rightarrow> None
                           | Some (g2, step) \<Rightarrow>
                               Some (Inl (counterloop + 1, True, True,
                                          \<lparr>fX = fX xyz + step * fX direction,
                                           fY = fY xyz + step * fY direction,
                                           fZ = fZ xyz + step * fZ direction\<rparr>, g2,
                                          if ion_pdgc = pdgc then Length + step else Length,
                                          if ion_pdgc = pdgc then GetWeight s mat else weight))))))"

text \<open>\<^verbatim>\<open>ComputeMaxPathLengthPDG(XYZ, direction, pdgc)\<close> returns \<^verbatim>\<open>Length*weight\<close>; the
  navigator after the call is returned with it.\<close>

definition ComputeMaxPathLengthPDG ::
  "'g TGeoManager \<Rightarrow> ('g, 'x) ROOTGeomAnalyzer_scheme \<Rightarrow> 'g \<Rightarrow> TVector3 \<Rightarrow> TVector3 \<Rightarrow> int \<Rightarrow>
   (real \<times> 'g) option" where
  "ComputeMaxPathLengthPDG G s g XYZ direction pdgc =
     (let g0 = SetCurrentDirection G (fX direction) (fY direction) (fZ direction) g
      in case while_loop (cmpl_body G s direction pdgc) (0, False, True, XYZ, g0, 0, 0) of
           None \<Rightarrow> None
         | Some (g', Length, weight) \<Rightarrow> Some (Length * weight, g'))"

datatype face = Top | Bottom | Left | Right | Back | Front

text \<open>The surface point of a face from two draws, and the raw direction from three.\<close>

fun face_point :: "face \<Rightarrow> TGeoBBox \<Rightarrow> real \<Rightarrow> real \<Rightarrow> TVector3" where
  "face_point Top b u1 u2 =
     \<lparr>fX = fX (boxOrigin b) - boxDX b + 2 * boxDX b * u1,
      fY = fY (boxOrigin b) + boxDY b,
      fZ = fZ (boxOrigin b) - boxDZ b + 2 * boxDZ b * u2\<rparr>"
| "face_point Bottom b u1 u2 =
     \<lparr>fX = fX (boxOrigin b) - boxDX b + 2 * boxDX b * u1,
      fY = fY (boxOrigin b) - boxDY b,
      fZ = fZ (boxOrigin b) - boxDZ b + 2 * boxDZ b * u2\<rparr>"
| "face_point Left b u1 u2 =
     \<lparr>fX = fX (boxOrigin b) - boxDX b,
      fY = fY (boxOrigin b) - boxDY b + 2 * boxDY b * u1,
      fZ = fZ (boxOrigin b) - boxDZ b + 2 * boxDZ b * u2\<rparr>"
| "face_point Right b u1 u2 =
     \<lparr>fX = fX (boxOrigin b) + boxDX b,
      fY = fY (boxOrigin b) - boxDY b + 2 * boxDY b * u1,
      fZ = fZ (boxOrigin b) - boxDZ b + 2 * boxDZ b * u2\<rparr>"
| "face_point Back b u1 u2 =
     \<lparr>fX = fX (boxOrigin b) - boxDX b + 2 * boxDX b * u1,
      fY = fY (boxOrigin b) - boxDY b + 2 * boxDY b * u2,
      fZ = fZ (boxOrigin b) - boxDZ b\<rparr>"
| "face_point Front b u1 u2 =
     \<lparr>fX = fX (boxOrigin b) - boxDX b + 2 * boxDX b * u1,
      fY = fY (boxOrigin b) - boxDY b + 2 * boxDY b * u2,
      fZ = fZ (boxOrigin b) + boxDZ b\<rparr>"

fun face_direction :: "face \<Rightarrow> real \<Rightarrow> real \<Rightarrow> real \<Rightarrow> TVector3" where
  "face_direction Top u3 u4 u5 = \<lparr>fX = - 0.5 + u3, fY = - u4, fZ = - 0.5 + u5\<rparr>"
| "face_direction Bottom u3 u4 u5 = \<lparr>fX = - 0.5 + u3, fY = u4, fZ = - 0.5 + u5\<rparr>"
| "face_direction Left u3 u4 u5 = \<lparr>fX = u3, fY = - 0.5 + u4, fZ = - 0.5 + u5\<rparr>"
| "face_direction Right u3 u4 u5 = \<lparr>fX = - u3, fY = - 0.5 + u4, fZ = - 0.5 + u5\<rparr>"
| "face_direction Back u3 u4 u5 = \<lparr>fX = - 0.5 + u3, fY = - 0.5 + u4, fZ = u5\<rparr>"
| "face_direction Front u3 u4 u5 = \<lparr>fX = - 0.5 + u3, fY = - 0.5 + u4, fZ = - u5\<rparr>"

definition normalise :: "TVector3 \<Rightarrow> TVector3" where
  "normalise d =
     (let dirTot = sqrt (fX d * fX d + fY d * fY d + fZ d * fZ d)
      in \<lparr>fX = fX d / dirTot, fY = fY d / dirTot, fZ = fZ d / dirTot\<rparr>)"

text \<open>\<^verbatim>\<open>while (Rgen < maxRays)\<close> for one surface point: the argument counts the passes
  still to make; the state is the random source, the navigator and MaxPath.\<close>

fun scan_rays ::
  "'g TGeoManager \<Rightarrow> ('g, 'x) ROOTGeomAnalyzer_scheme \<Rightarrow> face \<Rightarrow> int \<Rightarrow> TVector3 \<Rightarrow> nat \<Rightarrow>
   RandomGen \<times> 'g \<times> real \<Rightarrow> (RandomGen \<times> 'g \<times> real) option" where
  "scan_rays G s f pdgc xyz 0 st = Some st"
| "scan_rays G s f pdgc xyz (Suc n) (rg, g, MaxPath) =
     (let (u3, rg1) = Rndm rg; (u4, rg2) = Rndm rg1; (u5, rg3) = Rndm rg2;
          direction = normalise (face_direction f u3 u4 u5)
      in case ComputeMaxPathLengthPDG G s g xyz direction pdgc of
           None \<Rightarrow> None
         | Some (Length, g') \<Rightarrow>
             scan_rays G s f pdgc xyz n (rg3, g', if Length > MaxPath then Length else MaxPath))"

text \<open>\<^verbatim>\<open>while (igen < maxPoints)\<close> for one face.\<close>

fun scan_points ::
  "'g TGeoManager \<Rightarrow> ('g, 'x) ROOTGeomAnalyzer_scheme \<Rightarrow> TGeoBBox \<Rightarrow> face \<Rightarrow> int \<Rightarrow> nat \<Rightarrow>
   RandomGen \<times> 'g \<times> real \<Rightarrow> (RandomGen \<times> 'g \<times> real) option" where
  "scan_points G s b f pdgc 0 st = Some st"
| "scan_points G s b f pdgc (Suc n) (rg, g, MaxPath) =
     (let (u1, rg1) = Rndm rg; (u2, rg2) = Rndm rg1;
          xyz = face_point f b u1 u2
      in case scan_rays G s f pdgc xyz (nat (fNRays s)) (rg2, g, MaxPath) of
           None \<Rightarrow> None
         | Some st' \<Rightarrow> scan_points G s b f pdgc n st')"

text \<open>The six face scans of one nuclide, in the order of the source.\<close>

fun scan_faces ::
  "'g TGeoManager \<Rightarrow> ('g, 'x) ROOTGeomAnalyzer_scheme \<Rightarrow> TGeoBBox \<Rightarrow> int \<Rightarrow> face list \<Rightarrow>
   RandomGen \<times> 'g \<times> real \<Rightarrow> (RandomGen \<times> 'g \<times> real) option" where
  "scan_faces G s b pdgc [] st = Some st"
| "scan_faces G s b pdgc (f # fs) st =
     (case scan_points G s b f pdgc (nat (fNPoints s)) st of
        None \<Rightarrow> None
      | Some st' \<Rightarrow> scan_faces G s b pdgc fs st')"

text \<open>The loop over \<^verbatim>\<open>fCurrPDGCodeList\<close>; the state is the random source, the navigator
  and the list of maximum path lengths.\<close>

fun scan_materials ::
  "'g TGeoManager \<Rightarrow> ('g, 'x) ROOTGeomAnalyzer_scheme \<Rightarrow> TGeoBBox \<Rightarrow> int list \<Rightarrow>
   RandomGen \<times> 'g \<times> PathLengthList \<Rightarrow> (RandomGen \<times> 'g \<times> PathLengthList) option" where
  "scan_materials G s b [] st = Some st"
| "scan_materials G s b (pdgc # pdgcs) (rg, g, pl) =
     (case scan_faces G s b pdgc [Top, Bottom, Left, Right, Back, Front] (rg, g, 0) of
        None \<Rightarrow> None
      | Some (rg', g', MaxPath) \<Rightarrow>
          scan_materials G s b pdgcs (rg', g', AddPathLength pdgc MaxPath pl))"

definition ComputeMaxPathLengths ::
  "'g TGeoManager \<Rightarrow> 'g ROOTGeomAnalyzer \<Rightarrow> RandomGen \<Rightarrow>
   (error + 'g ROOTGeomAnalyzer \<times> RandomGen) option" where
  "ComputeMaxPathLengths G s rg =
     (case fGeometry s of
        None \<Rightarrow> Some (Inr (s, rg))
      | Some g \<Rightarrow>
          (case fCurrMaxPathLengthList s of
             None \<Rightarrow> Some (Inl NullPointer)
           | Some pl0 \<Rightarrow>
               (case fTopVolume s of
                  None \<Rightarrow> Some (Inl NullPointer)
                | Some topvol \<Rightarrow>
                    (case fCurrPDGCodeList s of
                       None \<Rightarrow> Some (Inl NullPointer)
                     | Some pdgcs \<Rightarrow>
                         (case scan_materials G s (volShape topvol) pdgcs (rg, g, SetAllToZero pl0) of
                            None \<Rightarrow> None
                          | Some (rg', g', pl) \<Rightarrow>
                              Some (Inr (s\<lparr>fGeometry := Some g',
                                           fCurrMaxPathLengthList := Some (ScalePathLengths s pl)\<rparr>,
                                         rg')))))))"


section \<open>A navigator over axis-aligned boxes\<close>

text \<open>
  An instance of the geometry oracle on which the functions above can be run: the
  world is a list of axis-aligned boxes, each holding a volume; where boxes overlap the
  earlier one wins. A point on the surface of a box belongs to the box the ray is about
  to be in. \<open>nbig\<close> is the step reported when no boundary lies ahead (ROOT: 1E30).
  The coordinates, densities and draws of the examples are small dyadic numbers, on which
  the floating-point arithmetic of the source is exact; the steps near 1E30 are only
  compared.
\<close>

record box =
  blo :: TVector3
  bhi :: TVector3
  bvol :: TGeoVolume

record navigator =
  nworld :: "box list"
  ntop :: TGeoVolume
  nbig :: real
  npoint :: TVector3
  ndir :: TVector3
  nstep :: real
  nentering :: bool

definition axis_inside :: "real \<Rightarrow> real \<Rightarrow> real \<Rightarrow> real \<Rightarrow> bool" where
  "axis_inside c d l h =
     (if 0 < d then l \<le> c \<and> c < h else if d < 0 then l < c \<and> c \<le> h else l \<le> c \<and> c \<le> h)"

definition in_box :: "TVector3 \<Rightarrow> TVector3 \<Rightarrow> box \<Rightarrow> bool" where
  "in_box q d b =
     (axis_inside (fX q) (fX d) (fX (blo b)) (fX (bhi b)) \<and>
      axis_inside (fY q) (fY d) (fY (blo b)) (fY (bhi b)) \<and>
      axis_inside (fZ q) (fZ d) (fZ (blo b)) (fZ (bhi b)))"

definition on_box :: "TVector3 \<Rightarrow> box \<Rightarrow> bool" where
  "on_box q b =
     (fX (blo b) \<le> fX q \<and> fX q \<le> fX (bhi b) \<and>
      fY (blo b) \<le> fY q \<and> fY q \<le> fY (bhi b) \<and>
      fZ (blo b) \<le> fZ q \<and> fZ q \<le> fZ (bhi b))"

definition ray_at :: "TVector3 \<Rightarrow> TVector3 \<Rightarrow> real \<Rightarrow> TVector3" where
  "ray_at q d t = \<lparr>fX = fX q + t * fX d, fY = fY q + t * fY d, fZ = fZ q + t * fZ d\<rparr>"

definition axis_planes :: "real \<Rightarrow> real \<Rightarrow> real \<Rightarrow> real \<Rightarrow> real list" where
  "axis_planes c d l h = (if d = 0 then [] else [(l - c) / d, (h - c) / d])"

text \<open>The distances ahead at which the ray crosses the surface of a box.\<close>

definition box_crossings :: "TVector3 \<Rightarrow> TVector3 \<Rightarrow> box \<Rightarrow> real list" where
  "box_crossings q d b =
     filter (\<lambda>t. 0 < t \<and> on_box (ray_at q d t) b)
       (axis_planes (fX q) (fX d) (fX (blo b)) (fX (bhi b)) @
        axis_planes (fY q) (fY d) (fY (blo b)) (fY (bhi b)) @
        axis_planes (fZ q) (fZ d) (fZ (blo b)) (fZ (bhi b)))"

definition nearest :: "real list \<Rightarrow> real option" where
  "nearest ts = (case ts of [] \<Rightarrow> None | t # ts' \<Rightarrow> Some (fold min ts' t))"

definition nav_boundary :: "navigator \<Rightarrow> navigator" where
  "nav_boundary n =
     (case nearest (concat (map (box_crossings (npoint n) (ndir n)) (nworld n))) of
        None \<Rightarrow> n\<lparr>nstep := nbig n, nentering := False\<rparr>
      | Some t \<Rightarrow> n\<lparr>nstep := t, nentering := True\<rparr>)"

definition nav_step :: "navigator \<Rightarrow> navigator" where
  "nav_step n = nav_boundary (n\<lparr>npoint := ray_at (npoint n) (ndir n) (nstep n)\<rparr>)"

definition nav_find :: "navigator \<Rightarrow> box option" where
  "nav_find n = find (in_box (npoint n) (ndir n)) (nworld n)"

definition BoxNavigator :: "navigator TGeoManager" where
  "BoxNavigator =
     \<lparr>SetCurrentDirection = (\<lambda>a b c n. n\<lparr>ndir := \<lparr>fX = a, fY = b, fZ = c\<rparr>\<rparr>),
      SetCurrentPoint = (\<lambda>a b c n. n\<lparr>npoint := \<lparr>fX = a, fY = b, fZ = c\<rparr>\<rparr>),
      FindNode = (\<lambda>a b c n. n\<lparr>npoint := \<lparr>fX = a, fY = b, fZ = c\<rparr>, nstep := 0, nentering := False\<rparr>),
      GetCurrentVolume = (\<lambda>n. case nav_find n of None \<Rightarrow> Some (ntop n) | Some b \<Rightarrow> Some (bvol b)),
      IsOutside = (\<lambda>n. nav_find n = None),
      FindNextBoundary = nav_boundary,
      GetStep = nstep,
      IsEntering = nentering,
      Step = nav_step,
      IonPdgCode = (\<lambda>A Z. 1000000000 + A * 1000000 + Z * 1000)\<rparr>"

text \<open>Materials and volumes for the examples: argon (A 40, Z 18) at two densities, iron
  (A 56, Z 26), and a mixture of hydrogen and oxygen.\<close>

definition no_shape :: TGeoBBox where
  "no_shape = \<lparr>boxDX = 0, boxDY = 0, boxDZ = 0, boxOrigin = \<lparr>fX = 0, fY = 0, fZ = 0\<rparr>\<rparr>"

definition solid :: "real \<Rightarrow> real \<Rightarrow> real \<Rightarrow> TGeoVolume" where
  "solid A Z rho =
     \<lparr>volMedium = Some \<lparr>medMaterial = Some \<lparr>matA = A, matZ = Z, matDensity = rho, matElements = None\<rparr>\<rparr>,
      volShape = no_shape\<rparr>"

definition water :: TGeoVolume where
  "water =
     \<lparr>volMedium = Some \<lparr>medMaterial = Some \<lparr>matA = 6, matZ = 3, matDensity = 1,
         matElements = Some [\<lparr>eleA = 1, eleZ = 1\<rparr>, \<lparr>eleA = 16, eleZ = 8\<rparr>]\<rparr>\<rparr>,
      volShape = no_shape\<rparr>"

definition slab :: "real \<Rightarrow> real \<Rightarrow> TGeoVolume \<Rightarrow> box" where
  "slab x0 x1 v = \<lparr>blo = \<lparr>fX = x0, fY = 0, fZ = 0\<rparr>, bhi = \<lparr>fX = x1, fY = 1, fZ = 1\<rparr>, bvol = v\<rparr>"

definition nav0 :: "box list \<Rightarrow> real \<Rightarrow> navigator" where
  "nav0 w b =
     \<lparr>nworld = w, ntop = solid 0 0 0, nbig = b,
      npoint = \<lparr>fX = 0, fY = 0, fZ = 0\<rparr>, ndir = \<lparr>fX = 0, fY = 0, fZ = 1\<rparr>,
      nstep = 0, nentering = False\<rparr>"

definition analyzer0 :: "navigator option \<Rightarrow> int list \<Rightarrow> navigator ROOTGeomAnalyzer" where
  "analyzer0 g pdgcs =
     \<lparr>fGeometry = g, fTopVolume = Some (solid 0 0 0),
      fCurrPathLengthList = Some (map (\<lambda>k. (k, 0)) pdgcs),
      fCurrMaxPathLengthList = Some (map (\<lambda>k. (k, 0)) pdgcs),
      fCurrPDGCodeList = Some pdgcs,
      fCurrVertex = Some \<lparr>fX = 0, fY = 0, fZ = 0\<rparr>,
      fScale = 1, fNPoints = 200, fNRays = 200, fDensWeight = True\<rparr>"

text \<open>A ray along the x axis from (x0, 1/2, 1/2).\<close>

definition x_start :: "real \<Rightarrow> TLorentzVector" where
  "x_start x0 = \<lparr>lvX = x0, lvY = 1/2, lvZ = 1/2, lvT = 0\<rparr>"

definition x_momentum :: TLorentzVector where
  "x_momentum = \<lparr>lvX = 1, lvY = 0, lvZ = 0, lvT = 1\<rparr>"


section \<open>Notions used in the statements\<close>

text \<open>The list a call of \<^verbatim>\<open>ComputePathLengths\<close> returns a reference to.\<close>

definition returned_lengths ::
  "(error + 'g ROOTGeomAnalyzer) option \<Rightarrow> (error + PathLengthList option) option" where
  "returned_lengths res = map_option (map_sum id fCurrPathLengthList) res"

text \<open>The raw geometric length of the segments of nuclide \<open>k\<close>, and their
  density-weighted length.\<close>

definition geometric_length :: "int \<Rightarrow> segment list \<Rightarrow> real" where
  "geometric_length k segs = (\<Sum>(c, step, mat) \<leftarrow> filter (\<lambda>(c, step, mat). c = k) segs. step)"

definition weighted_length :: "int \<Rightarrow> segment list \<Rightarrow> real" where
  "weighted_length k segs =
     (\<Sum>(c, step, mat) \<leftarrow> filter (\<lambda>(c, step, mat). c = k) segs. step * matDensity mat)"

text \<open>What a call of \<^verbatim>\<open>ComputePathLengths\<close> leaves behind when every entry of its
  list is the length \<open>len\<close> of the segments of its nuclide: that length times \<open>fScale\<close>
  when the loop ended, the length itself on the early return, and the null-pointer failure
  when the traversal dereferenced a null volume.\<close>

definition recorded ::
  "(int \<Rightarrow> segment list \<Rightarrow> real) \<Rightarrow> 'g ROOTGeomAnalyzer \<Rightarrow> PathLengthList \<Rightarrow> 'g seg_exit \<Rightarrow>
   error + 'g ROOTGeomAnalyzer" where
  "recorded len s pl0 e =
     (case e of
        SegCrashed \<Rightarrow> Inl NullPointer
      | SegReturnedEarly g' segs \<Rightarrow>
          Inr (s\<lparr>fGeometry := Some g',
                 fCurrPathLengthList := Some (map (\<lambda>(k, v). (k, len k segs)) pl0)\<rparr>)
      | SegFinished g' segs \<Rightarrow>
          Inr (s\<lparr>fGeometry := Some g',
                 fCurrPathLengthList := Some (map (\<lambda>(k, v). (k, len k segs * fScale s)) pl0)\<rparr>))"

text \<open>The segments a traversal ended with.\<close>

definition segments_of :: "'g seg_exit \<Rightarrow> segment list" where
  "segments_of e = (case e of SegFinished g segs \<Rightarrow> segs | SegReturnedEarly g segs \<Rightarrow> segs | SegCrashed \<Rightarrow> [])"

text \<open>The position with which a pass through a traversal loop continues.\<close>

definition next_position ::
  "((bool \<times> bool \<times> TVector3 \<times> 'a) + 'b) option \<Rightarrow> TVector3 option" where
  "next_position res = (case res of Some (Inl (f, c, r, rest)) \<Rightarrow> Some r | _ \<Rightarrow> None)"

text \<open>The total the first loop of \<^verbatim>\<open>GenerateVertex\<close> ends with, and the vertex a call
  returns a reference to.\<close>

definition total_of :: "'g gv_exit option \<Rightarrow> real option" where
  "total_of res = (case res of Some (Total g d) \<Rightarrow> Some d | _ \<Rightarrow> None)"

definition returned_vertex ::
  "(error + 'g ROOTGeomAnalyzer \<times> RandomGen) option \<Rightarrow> (error + TVector3 option) option" where
  "returned_vertex res = map_option (map_sum id (\<lambda>(s, rg). fCurrVertex s)) res"

text \<open>
  The first loop of \<^verbatim>\<open>GenerateVertex\<close>, told from the side of the navigator: where it
  starts, the navigator after \<^verbatim>\<open>SetCurrentPoint\<close> and \<^verbatim>\<open>FindNode\<close> at a position, the
  navigator at the first entering state within \<open>k\<close> calls of \<^verbatim>\<open>Step()\<close>, and the
  position and navigator after one pass (the position advanced as the first loop does it).
\<close>

definition gv_start :: "'g TGeoManager \<Rightarrow> 'g \<Rightarrow> TLorentzVector \<Rightarrow> TLorentzVector \<Rightarrow> TVector3 \<times> 'g" where
  "gv_start G g x p =
     (\<lparr>fX = lvX x, fY = lvY x, fZ = lvZ x\<rparr>,
      SetCurrentDirection G (lvX p / lvP p) (lvY p / lvP p) (lvZ p / lvP p) g)"

definition gv_probe :: "'g TGeoManager \<Rightarrow> TVector3 \<times> 'g \<Rightarrow> 'g" where
  "gv_probe G st =
     FindNode G (fX (fst st)) (fY (fst st)) (fZ (fst st))
       (SetCurrentPoint G (fX (fst st)) (fY (fst st)) (fZ (fst st)) (snd st))"

fun enter_within :: "'g TGeoManager \<Rightarrow> nat \<Rightarrow> 'g \<Rightarrow> 'g option" where
  "enter_within G 0 g = (if IsEntering G g then Some g else None)"
| "enter_within G (Suc k) g = (if IsEntering G g then Some g else enter_within G k (Step G g))"

definition gv_pass :: "'g TGeoManager \<Rightarrow> nat \<Rightarrow> TLorentzVector \<Rightarrow> TVector3 \<times> 'g \<Rightarrow> TVector3 \<times> 'g" where
  "gv_pass G k p st =
     (case enter_within G k (FindNextBoundary G (gv_probe G st)) of
        None \<Rightarrow> st
      | Some g' \<Rightarrow> (TVector3_writes (gv_advance_writes (GetStep G g') p) (fst st), g'))"

text \<open>
  The three kinds of pass on which the first loop adds nothing to the total: outside the
  geometry with a boundary ahead; inside a material that is not of the target nuclide, or
  whose step times weight is 0; and the pass on which the loop ends, outside after having
  been inside, or in a volume without medium or material.
\<close>

definition gv_approaches :: "'g TGeoManager \<Rightarrow> nat \<Rightarrow> TVector3 \<times> 'g \<Rightarrow> bool" where
  "gv_approaches G k st =
     (GetCurrentVolume G (gv_probe G st) \<noteq> None \<and> IsOutside G (gv_probe G st) \<and>
      enter_within G k (FindNextBoundary G (gv_probe G st)) \<noteq> None)"

definition gv_adds_nothing ::
  "'g TGeoManager \<Rightarrow> ('g, 'x) ROOTGeomAnalyzer_scheme \<Rightarrow> nat \<Rightarrow> int \<Rightarrow> TVector3 \<times> 'g \<Rightarrow> bool" where
  "gv_adds_nothing G s k tgtpdg st =
     (\<not> IsOutside G (gv_probe G st) \<and>
      (case GetCurrentVolume G (gv_probe G st) of
         None \<Rightarrow> False
       | Some v \<Rightarrow>
           (case volMedium v of
              None \<Rightarrow> False
            | Some med \<Rightarrow>
                (case medMaterial med of
                   None \<Rightarrow> False
                 | Some mat \<Rightarrow>
                     (case enter_within G k (FindNextBoundary G (gv_probe G st)) of
                        None \<Rightarrow> False
                      | Some g' \<Rightarrow>
                          GetTargetPdgCode G mat \<noteq> tgtpdg \<or> GetStep G g' * GetWeight s mat = 0)))))"

definition gv_stops :: "'g TGeoManager \<Rightarrow> bool \<Rightarrow> TVector3 \<times> 'g \<Rightarrow> bool" where
  "gv_stops G been_inside st =
     (case GetCurrentVolume G (gv_probe G st) of
        None \<Rightarrow> False
      | Some v \<Rightarrow>
          if IsOutside G (gv_probe G st) then been_inside
          else (case volMedium v of None \<Rightarrow> True | Some med \<Rightarrow> medMaterial med = None))"

text \<open>Example geometries: two unit slabs side by side on the x axis.\<close>

definition argon_iron :: navigator where
  "argon_iron = nav0 [slab 0 1 (solid 40 18 1), slab 1 2 (solid 56 26 8)] (10 ^ 30)"

definition water_iron :: navigator where
  "water_iron = nav0 [slab 0 1 water, slab 1 2 (solid 56 26 8)] (10 ^ 30)"

definition argon_argon :: navigator where
  "argon_argon = nav0 [slab 0 1 (solid 40 18 2), slab 1 2 (solid 40 18 1)] (10 ^ 30)"

definition half_draws :: RandomGen where
  "half_draws = \<lparr>draws = (\<lambda>n. 1/2), drawn = 0\<rparr>"

text \<open>The point of the ray from \<open>x\<close> along \<open>p\<close> at distance \<open>t\<close>.\<close>

definition ray_point :: "TLorentzVector \<Rightarrow> TLorentzVector \<Rightarrow> real \<Rightarrow> TVector3" where
  "ray_point x p t =
     \<lparr>fX = lvX x + t * lvX p / lvP p, fY = lvY x + t * lvY p / lvP p, fZ = lvZ x + t * lvZ p / lvP p\<rparr>"

text \<open>A set of navigator states that the navigation calls of a traversal do not leave.\<close>

definition closed_under_navigation :: "'g TGeoManager \<Rightarrow> 'g set \<Rightarrow> bool" where
  "closed_under_navigation G N =
     (\<forall>g \<in> N. FindNextBoundary G g \<in> N \<and> Step G g \<in> N \<and>
        (\<forall>a b c. SetCurrentPoint G a b c g \<in> N \<and> FindNode G a b c g \<in> N))"

text \<open>The navigator reports no negative step (the numeric policy of the spec).\<close>

definition forward_steps :: "'g TGeoManager \<Rightarrow> 'g set \<Rightarrow> bool" where
  "forward_steps G N = (\<forall>g \<in> N. 0 \<le> GetStep G g)"

text \<open>The ray never intersects the geometry: in the states of \<open>N\<close>, the navigator placed
  at any point of the ray, at a distance \<open>t \<ge> 0\<close> from its start, reports that the point is
  outside.\<close>

definition never_inside ::
  "'g TGeoManager \<Rightarrow> 'g set \<Rightarrow> TLorentzVector \<Rightarrow> TLorentzVector \<Rightarrow> bool" where
  "never_inside G N x p =
     (\<forall>g \<in> N. \<forall>t. 0 \<le> t \<longrightarrow>
        IsOutside G (FindNode G (fX (ray_point x p t)) (fY (ray_point x p t)) (fZ (ray_point x p t))
                       (SetCurrentPoint G (fX (ray_point x p t)) (fY (ray_point x p t))
                          (fZ (ray_point x p t)) g)))"

text \<open>More examples: one argon slab, with the navigator's largest step given; an argon
  slab that begins at x = 9.99E29 (the double) and is 2^50 thick, so that its far side is a
  double too; a ray along x that passes the slabs at y = 5.\<close>

definition one_slab :: "real \<Rightarrow> navigator" where
  "one_slab b = nav0 [slab 0 1 (solid 40 18 2)] b"

definition far_slab :: navigator where
  "far_slab = nav0 [slab double_9_99E29 (double_9_99E29 + 2 ^ 50) (solid 40 18 2)] double_1E30"

definition passing_start :: TLorentzVector where
  "passing_start = \<lparr>lvX = - 1, lvY = 5, lvZ = 1/2, lvT = 0\<rparr>"

text \<open>An argon slab on the x axis and a second argon box beside the line that leads to it;
  there is no iron.\<close>

definition offset_boxes :: navigator where
  "offset_boxes =
     nav0 [slab 0 1 (solid 40 18 2),
           \<lparr>blo = \<lparr>fX = - 2, fY = 1, fZ = 0\<rparr>, bhi = \<lparr>fX = - 1/2, fY = 2, fZ = 1\<rparr>,
            bvol = solid 40 18 1\<rparr>] double_1E30"

text \<open>A slab of argon of density 3 that is 2 long.\<close>

definition thick_slab :: navigator where
  "thick_slab = nav0 [slab 0 2 (solid 40 18 3)] double_1E30"

text \<open>An example for the scan: the cube [-1,1]^3, argon (density 1) in the upper half
  (y from 0 to 1), iron (density 8) in the lower half; the top volume's box is the cube.
  The random sequence gives 1/4 for the two draws of every surface point, except the
  draw number 10, which is 3/4, and 1/2 for the three draws of every direction.\<close>

definition halves :: navigator where
  "halves =
     nav0 [\<lparr>blo = \<lparr>fX = - 1, fY = 0, fZ = - 1\<rparr>, bhi = \<lparr>fX = 1, fY = 1, fZ = 1\<rparr>, bvol = solid 40 18 1\<rparr>,
           \<lparr>blo = \<lparr>fX = - 1, fY = - 1, fZ = - 1\<rparr>, bhi = \<lparr>fX = 1, fY = 0, fZ = 1\<rparr>, bvol = solid 56 26 8\<rparr>]
          (10 ^ 30)"

definition cube :: TGeoVolume where
  "cube = \<lparr>volMedium = None,
           volShape = \<lparr>boxDX = 1, boxDY = 1, boxDZ = 1, boxOrigin = \<lparr>fX = 0, fY = 0, fZ = 0\<rparr>\<rparr>\<rparr>"

definition scanner :: "int \<Rightarrow> int \<Rightarrow> navigator ROOTGeomAnalyzer" where
  "scanner np nr =
     (analyzer0 (Some halves) [1040018000, 1056026000])
       \<lparr>fTopVolume := Some cube, fNPoints := np, fNRays := nr\<rparr>"

definition scan_draws :: RandomGen where
  "scan_draws =
     \<lparr>draws = (\<lambda>n. if n = 10 then 3/4 else if n mod 5 < 2 then 1/4 else 1/2), drawn = 0\<rparr>"

text \<open>The list of maxima a call of \<^verbatim>\<open>ComputeMaxPathLengths\<close> returns a reference to.\<close>

definition returned_maxima ::
  "(error + 'g ROOTGeomAnalyzer \<times> RandomGen) option \<Rightarrow> (error + PathLengthList option) option" where
  "returned_maxima res = map_option (map_sum id (\<lambda>(s, rg). fCurrMaxPathLengthList s)) res"

section \<open>Rules for iteration\<close>

lemma while_loop_invariant:
  fixes body :: "'s \<Rightarrow> ('s + 'r) option"
  assumes run: "while_loop body s = Some r"
    and init: "I s"
    and step: "\<And>s s'. I s \<Longrightarrow> body s = Some (Inl s') \<Longrightarrow> I s'"
    and exit: "\<And>s r. I s \<Longrightarrow> body s = Some (Inr r) \<Longrightarrow> Q r"
  shows "Q r"
proof -
  have "I s \<longrightarrow> Q r"
  proof (rule while_loop.raw_induct [where P = "\<lambda>b s r. b = body \<longrightarrow> I s \<longrightarrow> Q r" and body = body,
        OF _ run, THEN mp, OF _ refl])
    fix wl :: "('s \<Rightarrow> ('s + 'r) option) \<Rightarrow> 's \<Rightarrow> 'r option" and b s r
    assume IH: "\<And>b s r. wl b s = Some r \<Longrightarrow> b = body \<longrightarrow> I s \<longrightarrow> Q r"
      and unf: "(case b s of None \<Rightarrow> None | Some (Inl s') \<Rightarrow> wl b s' | Some (Inr r) \<Rightarrow> Some r) = Some r"
    show "b = body \<longrightarrow> I s \<longrightarrow> Q r"
    proof (intro impI)
      assume b: "b = body" and inv: "I s"
      show "Q r"
      proof (cases "body s")
        case None
        with unf b show ?thesis by simp
      next
        case (Some a)
        show ?thesis
        proof (cases a)
          case (Inl s')
          with Some unf b have "wl body s' = Some r" by simp
          moreover have "I s'" using step [OF inv] Some Inl by simp
          ultimately show ?thesis using IH by blast
        next
          case (Inr r')
          with Some unf b have "r' = r" by simp
          with exit [OF inv] Some Inr show ?thesis by simp
        qed
      qed
    qed
  qed
  with init show ?thesis by blast
qed

lemma while_loop_diverges:
  assumes init: "I s"
    and step: "\<And>s. I s \<Longrightarrow> \<exists>s'. body s = Some (Inl s') \<and> I s'"
  shows "while_loop body s = None"
proof (cases "while_loop body s")
  case None
  then show ?thesis .
next
  case (Some r)
  have False
  proof (rule while_loop_invariant [where I = I and Q = "\<lambda>_. False", OF Some init])
    fix s s' assume "I s" "body s = Some (Inl s')"
    with step show "I s'" by fastforce
  next
    fix s r assume "I s" "body s = Some (Inr r)"
    with step show False by fastforce
  qed
  then show ?thesis ..
qed

lemma while_loop_continue:
  "body st = Some (Inl st') \<Longrightarrow> while_loop body st = while_loop body st'"
  by (subst while_loop.simps) simp

lemma while_loop_exit:
  "body st = Some (Inr e) \<Longrightarrow> while_loop body st = Some e"
  by (subst while_loop.simps) simp

section \<open>Unfolding rules for running the functions\<close>

lemmas nav_defs = BoxNavigator_def nav_boundary_def nav_step_def nav_find_def box_crossings_def
  axis_planes_def on_box_def ray_at_def in_box_def axis_inside_def nearest_def nav0_def slab_def
  solid_def water_def no_shape_def

lemmas cpl_defs = ComputePathLengths_def cpl_traverse_def cpl_seek_entry_def next_boundary_step_def
  while_loop.simps Let_def TVector3_writes_def TVector3_add_at_def cpl_advance_writes_def
  GetTargetPdgCode_def GetTargetPdgCodeEle_def GetWeight_def WillNeverEnter_def int_of_double_def
  double_9_99E29_def double_1E30_def
  SetAllToZero_def AddPathLength_def ScalePathLength_def ScalePathLengths_def lvP_def
  analyzer0_def x_start_def x_momentum_def returned_lengths_def

lemmas gv_defs = GenerateVertex_def gv_length_def gv_advance_writes_def gv_walk_writes_def
  gv_back_writes_def StepIncrease_def Rndm_def total_of_def returned_vertex_def next_position_def
  half_draws_def
lemmas cmpl_defs = ComputeMaxPathLengthPDG_def
lemmas world_defs = argon_iron_def water_iron_def argon_argon_def one_slab_def far_slab_def
  passing_start_def

lemmas zero_defs = gv_start_def gv_probe_def gv_pass_def gv_approaches_def gv_adds_nothing_def
  gv_stops_def offset_boxes_def

lemma passing_ray_outside:
  "nworld n = [slab 0 1 (solid 40 18 2)] \<Longrightarrow> fY (npoint n) = 5 \<Longrightarrow> fY (ndir n) = 0 \<Longrightarrow>
   nav_find n = None \<and> nav_boundary n = n\<lparr>nstep := nbig n, nentering := False\<rparr>"
  by (simp add: nav_find_def nav_boundary_def in_box_def axis_inside_def slab_def box_crossings_def
      axis_planes_def on_box_def ray_at_def nearest_def)

section \<open>Density weighting\<close>

lemma while_loop_map:
  fixes body1 :: "'s \<Rightarrow> ('s + 'r) option" and body2 :: "'t \<Rightarrow> ('t + 'q) option"
  assumes sim: "\<And>st. body2 (f st) = map_option (map_sum f h) (body1 st)"
  shows "while_loop body2 (f st) = map_option h (while_loop body1 st)"
proof (cases "while_loop body1 st")
  case (Some e)
  have "while_loop body2 (f st) = Some (h e)"
  proof (rule while_loop.raw_induct
      [where P = "\<lambda>b st e. b = body1 \<longrightarrow> while_loop body2 (f st) = Some (h e)" and body = body1,
        OF _ Some, THEN mp, OF _ refl])
    fix wl :: "('s \<Rightarrow> ('s + 'r) option) \<Rightarrow> 's \<Rightarrow> 'r option" and b s r
    assume IH: "\<And>b s r. wl b s = Some r \<Longrightarrow> b = body1 \<longrightarrow> while_loop body2 (f s) = Some (h r)"
      and unf: "(case b s of None \<Rightarrow> None | Some (Inl s') \<Rightarrow> wl b s' | Some (Inr r) \<Rightarrow> Some r) = Some r"
    show "b = body1 \<longrightarrow> while_loop body2 (f s) = Some (h r)"
    proof (intro impI)
      assume b: "b = body1"
      show "while_loop body2 (f s) = Some (h r)"
      proof (cases "body1 s")
        case None
        with unf b show ?thesis by simp
      next
        case (Some a)
        show ?thesis
        proof (cases a)
          case (Inl s')
          with Some unf b have "wl body1 s' = Some r" by simp
          with IH have "while_loop body2 (f s') = Some (h r)" by blast
          moreover have "body2 (f s) = Some (Inl (f s'))" by (simp add: sim Some Inl)
          ultimately show ?thesis by (subst while_loop.simps) simp
        next
          case (Inr r')
          with Some unf b have "r' = r" by simp
          moreover have "body2 (f s) = Some (Inr (h r'))" by (simp add: sim Some Inr)
          ultimately show ?thesis by (subst while_loop.simps) simp
        qed
      qed
    qed
  qed
  with Some show ?thesis by simp
next
  case None
  have "while_loop body2 (f st) = None"
  proof (cases "while_loop body2 (f st)")
    case None
    then show ?thesis .
  next
    case (Some e')
    have "\<forall>st0. f st = f st0 \<longrightarrow> (\<exists>e. while_loop body1 st0 = Some e)"
    proof (rule while_loop.raw_induct
        [where P = "\<lambda>b t e'. b = body2 \<longrightarrow> (\<forall>st0. t = f st0 \<longrightarrow> (\<exists>e. while_loop body1 st0 = Some e))"
          and body = body2, OF _ Some, THEN mp, OF _ refl])
      fix wl :: "('t \<Rightarrow> ('t + 'q) option) \<Rightarrow> 't \<Rightarrow> 'q option" and b t r
      assume IH: "\<And>b t r. wl b t = Some r \<Longrightarrow>
                    b = body2 \<longrightarrow> (\<forall>st0. t = f st0 \<longrightarrow> (\<exists>e. while_loop body1 st0 = Some e))"
        and unf: "(case b t of None \<Rightarrow> None | Some (Inl s') \<Rightarrow> wl b s' | Some (Inr r) \<Rightarrow> Some r) = Some r"
      show "b = body2 \<longrightarrow> (\<forall>st0. t = f st0 \<longrightarrow> (\<exists>e. while_loop body1 st0 = Some e))"
      proof (intro impI allI)
        fix st0
        assume b: "b = body2" and t: "t = f st0"
        show "\<exists>e. while_loop body1 st0 = Some e"
        proof (cases "body1 st0")
          case None
          with unf b t show ?thesis by (simp add: sim)
        next
          case (Some a)
          show ?thesis
          proof (cases a)
            case (Inl s')
            with Some unf b t have "wl body2 (f s') = Some r" by (simp add: sim)
            with IH obtain e where "while_loop body1 s' = Some e" by blast
            with Some Inl show ?thesis by (subst while_loop.simps) simp
          next
            case (Inr r')
            with Some show ?thesis by (subst while_loop.simps) simp
          qed
        qed
      qed
    qed
    with None show ?thesis by auto
  qed
  with None show ?thesis by simp
qed

lemma record_segments_snoc:
  "record_segments w (segs @ [(c, step, mat)]) pl = AddPathLength c (step * w mat) (record_segments w segs pl)"
  by (simp add: record_segments_def)

lemma mixture_segments:
  "cpl_mixture_elements G s p mat eles (r, g, record_segments (GetWeight s) segs pl) =
   map_option (\<lambda>(r, g, segs). (r, g, record_segments (GetWeight s) segs pl))
     (cpl_mixture_segments G p mat eles (r, g, segs))"
proof (induction eles arbitrary: r g segs)
  case Nil
  show ?case by simp
next
  case (Cons ele eles)
  show ?case
    by (simp add: Cons [symmetric] record_segments_snoc split: option.splits)
qed

lemma body_segments:
  "cpl_body G s p (seg_state (GetWeight s) pl st) =
   map_option (map_sum (seg_state (GetWeight s) pl) (seg_result (GetWeight s) pl)) (seg_body G p st)"
proof -
  obtain f c r g segs where st: "st = (f, c, r, g, segs)" by (cases st) auto
  show ?thesis
    by (simp add: st mixture_segments record_segments_snoc Let_def
        split: option.splits seek_result.splits)
qed

lemma traverse_segments:
  "cpl_traverse G s g pl x p = map_option (seg_result (GetWeight s) pl) (cpl_segments G g x p)"
proof -
  let ?st = "(False, True, \<lparr>fX = lvX x, fY = lvY x, fZ = lvZ x\<rparr>,
              SetCurrentDirection G (lvX p / lvP p) (lvY p / lvP p) (lvZ p / lvP p) g, [] :: segment list)"
  have "while_loop (cpl_body G s p) (seg_state (GetWeight s) pl ?st) =
        map_option (seg_result (GetWeight s) pl) (while_loop (seg_body G p) ?st)"
    by (rule while_loop_map) (rule body_segments)
  then show ?thesis
    by (simp add: cpl_traverse_def cpl_segments_def record_segments_def del: cpl_body.simps seg_body.simps)
qed

lemma length_with_Cons:
  "length_with w k ((c, step, mat) # segs) = (if c = k then step * w mat else 0) + length_with w k segs"
  by (simp add: length_with_def)

lemma length_with_Nil: "length_with w k [] = 0"
  by (simp add: length_with_def)

lemma record_segments_sums:
  "record_segments w segs (map (\<lambda>(k, v). (k, F k)) pl0) =
   map (\<lambda>(k, v). (k, F k + length_with w k segs)) pl0"
proof (induction segs arbitrary: F)
  case Nil
  show ?case by (simp add: record_segments_def length_with_Nil)
next
  case (Cons seg segs)
  obtain c step mat where seg: "seg = (c, step, mat)" by (cases seg) auto
  have "AddPathLength c (step * w mat) (map (\<lambda>(k, v). (k, F k)) pl0) =
        map (\<lambda>(k, v). (k, (\<lambda>k. F k + (if c = k then step * w mat else 0)) k)) pl0"
    by (auto simp: AddPathLength_def)
  then have "record_segments w (seg # segs) (map (\<lambda>(k, v). (k, F k)) pl0) =
        record_segments w segs (map (\<lambda>(k, v). (k, (\<lambda>k. F k + (if c = k then step * w mat else 0)) k)) pl0)"
    by (simp add: record_segments_def seg)
  also have "\<dots> = map (\<lambda>(k, v). (k, (F k + (if c = k then step * w mat else 0)) + length_with w k segs)) pl0"
    by (rule Cons.IH)
  finally show ?case by (simp add: seg length_with_Cons add.assoc)
qed

lemma record_segments_zero:
  "record_segments w segs (SetAllToZero pl0) = map (\<lambda>(k, v). (k, length_with w k segs)) pl0"
  using record_segments_sums [of w segs "\<lambda>_. 0" pl0] by (simp add: SetAllToZero_def)

lemma scale_keys:
  "distinct ks \<Longrightarrow>
   fold (\<lambda>pdgc acc. ScalePathLength pdgc a acc) ks (map (\<lambda>(k, v). (k, F k)) pl0) =
   map (\<lambda>(k, v). (k, if k \<in> set ks then F k * a else F k)) pl0"
proof (induction ks arbitrary: F)
  case Nil
  show ?case by simp
next
  case (Cons c ks)
  have "ScalePathLength c a (map (\<lambda>(k, v). (k, F k)) pl0) =
        map (\<lambda>(k, v). (k, (\<lambda>k. if k = c then F k * a else F k) k)) pl0"
    by (auto simp: ScalePathLength_def)
  then have "fold (\<lambda>pdgc acc. ScalePathLength pdgc a acc) (c # ks) (map (\<lambda>(k, v). (k, F k)) pl0) =
        fold (\<lambda>pdgc acc. ScalePathLength pdgc a acc) ks
          (map (\<lambda>(k, v). (k, (\<lambda>k. if k = c then F k * a else F k) k)) pl0)"
    by simp
  also have "\<dots> = map (\<lambda>(k, v). (k, if k \<in> set ks then (if k = c then F k * a else F k) * a
                                      else (if k = c then F k * a else F k))) pl0"
    using Cons.prems by (intro Cons.IH) simp
  also have "\<dots> = map (\<lambda>(k, v). (k, if k \<in> set (c # ks) then F k * a else F k)) pl0"
    using Cons.prems by auto
  finally show ?case .
qed

lemma ScalePathLengths_sums:
  assumes "distinct (map fst pl0)"
  shows "ScalePathLengths s (map (\<lambda>(k, v). (k, F k)) pl0) = map (\<lambda>(k, v). (k, F k * fScale s)) pl0"
proof -
  have keys: "map fst (map (\<lambda>(k, v). (k, F k)) pl0) = map fst pl0"
    by (induction pl0) auto
  have "ScalePathLengths s (map (\<lambda>(k, v). (k, F k)) pl0) =
        map (\<lambda>(k, v). (k, if k \<in> set (map fst pl0) then F k * fScale s else F k)) pl0"
    unfolding ScalePathLengths_def keys using assms by (rule scale_keys)
  also have "\<dots> = map (\<lambda>(k, v). (k, F k * fScale s)) pl0"
    by (rule map_cong [OF refl]) force
  finally show ?thesis .
qed

lemma length_with_one: "length_with (\<lambda>_. 1) = geometric_length"
  by (simp add: fun_eq_iff length_with_def geometric_length_def)

lemma length_with_density: "length_with matDensity = weighted_length"
  by (simp add: fun_eq_iff length_with_def weighted_length_def)

lemma ComputePathLengths_recorded:
  assumes "fGeometry s = Some g" and "fCurrPathLengthList s = Some pl0" and "distinct (map fst pl0)"
  shows "ComputePathLengths G s x p =
         map_option (recorded (length_with (GetWeight s)) s pl0) (cpl_segments G g x p)"
proof (cases "cpl_segments G g x p")
  case None
  with assms show ?thesis by (simp add: ComputePathLengths_def traverse_segments)
next
  case (Some e)
  with assms show ?thesis
    by (cases e)
      (simp_all add: ComputePathLengths_def traverse_segments recorded_def record_segments_zero
        ScalePathLengths_sums)
qed

text \<open>
  Claim C9. The weight of a segment is the density of its material when density weighting
  is on and exactly 1 when it is off. On every ray, with a list whose keys are distinct (a
  \<^verbatim>\<open>std::map\<close>): with weighting off, \<^verbatim>\<open>ComputePathLengths\<close> returns for every nuclide
  the sum of the raw steps of the segments of that nuclide, times \<open>fScale\<close> and nothing
  else; with weighting on, the sum of step times density of the segment's material, times
  \<open>fScale\<close>. The call returns exactly when the traversal does, and fails when it fails.
\<close>

theorem GetWeight_density_or_one:
  "GetWeight s mat = (if fDensWeight s then matDensity mat else 1) \<and>
   (fGeometry s = Some g \<and> fCurrPathLengthList s = Some pl0 \<and> distinct (map fst pl0) \<longrightarrow>
      (\<not> fDensWeight s \<longrightarrow>
         ComputePathLengths G s x p = map_option (recorded geometric_length s pl0) (cpl_segments G g x p)) \<and>
      (fDensWeight s \<longrightarrow>
         ComputePathLengths G s x p = map_option (recorded weighted_length s pl0) (cpl_segments G g x p)))"
proof (intro conjI impI)
  show "GetWeight s mat = (if fDensWeight s then matDensity mat else 1)"
    by (simp add: GetWeight_def)
next
  assume h: "fGeometry s = Some g \<and> fCurrPathLengthList s = Some pl0 \<and> distinct (map fst pl0)"
    and off: "\<not> fDensWeight s"
  from off have "GetWeight s = (\<lambda>_. 1)" by (simp add: fun_eq_iff GetWeight_def)
  with h ComputePathLengths_recorded [of s g pl0 G x p]
  show "ComputePathLengths G s x p = map_option (recorded geometric_length s pl0) (cpl_segments G g x p)"
    by (simp add: length_with_one)
next
  assume h: "fGeometry s = Some g \<and> fCurrPathLengthList s = Some pl0 \<and> distinct (map fst pl0)"
    and on: "fDensWeight s"
  from on have "GetWeight s = matDensity" by (simp add: fun_eq_iff GetWeight_def)
  with h ComputePathLengths_recorded [of s g pl0 G x p]
  show "ComputePathLengths G s x p = map_option (recorded weighted_length s pl0) (cpl_segments G g x p)"
    by (simp add: length_with_density)
qed

text \<open>
  Argon of density 3 in a slab that is 2 long, \<open>fScale\<close> 4: the one segment has the step 2;
  with weighting off the call returns 2 * 4 = 8, with weighting on 2 * 3 * 4 = 24.
\<close>

theorem GetWeight_density_or_one_witness:
  "GetWeight ((analyzer0 (Some thick_slab) [1040018000])\<lparr>fScale := 4, fDensWeight := False\<rparr>)
     \<lparr>matA = 40, matZ = 18, matDensity = 3, matElements = None\<rparr> = 1 \<and>
   GetWeight ((analyzer0 (Some thick_slab) [1040018000])\<lparr>fScale := 4, fDensWeight := True\<rparr>)
     \<lparr>matA = 40, matZ = 18, matDensity = 3, matElements = None\<rparr> = 3 \<and>
   map_option segments_of (cpl_segments BoxNavigator thick_slab (x_start (- 1)) x_momentum) =
     Some [(1040018000, 2, \<lparr>matA = 40, matZ = 18, matDensity = 3, matElements = None\<rparr>)] \<and>
   returned_lengths (ComputePathLengths BoxNavigator
     ((analyzer0 (Some thick_slab) [1040018000])\<lparr>fScale := 4, fDensWeight := False\<rparr>)
     (x_start (- 1)) x_momentum) = Some (Inr (Some [(1040018000, 8)])) \<and>
   returned_lengths (ComputePathLengths BoxNavigator
     ((analyzer0 (Some thick_slab) [1040018000])\<lparr>fScale := 4, fDensWeight := True\<rparr>)
     (x_start (- 1)) x_momentum) = Some (Inr (Some [(1040018000, 24)]))"
proof -
  let ?a = "analyzer0 (Some thick_slab) [1040018000]"
  let ?off = "?a\<lparr>fScale := 4, fDensWeight := False\<rparr>"
  let ?on = "?a\<lparr>fScale := 4, fDensWeight := True\<rparr>"
  let ?argon = "\<lparr>matA = 40, matZ = 18, matDensity = 3, matElements = None\<rparr>"
  let ?fin = "thick_slab\<lparr>npoint := \<lparr>fX = 2, fY = 1/2, fZ = 1/2\<rparr>, ndir := \<lparr>fX = 1, fY = 0, fZ = 0\<rparr>\<rparr>"
  have segs: "cpl_segments BoxNavigator thick_slab (x_start (- 1)) x_momentum =
              Some (SegFinished ?fin [(1040018000, 2, ?argon)])"
    by (simp add: cpl_segments_def cpl_defs nav_defs thick_slab_def)
  have pre: "fGeometry ?off = Some thick_slab \<and> fCurrPathLengthList ?off = Some [(1040018000, 0)] \<and>
             fGeometry ?on = Some thick_slab \<and> fCurrPathLengthList ?on = Some [(1040018000, 0)] \<and>
             distinct (map fst [(1040018000 :: int, 0 :: real)])"
    by (simp add: analyzer0_def)
  from GetWeight_density_or_one [of ?off ?argon thick_slab "[(1040018000, 0)]" BoxNavigator
      "x_start (- 1)" x_momentum] pre segs
  have off: "GetWeight ?off ?argon = 1 \<and>
             returned_lengths (ComputePathLengths BoxNavigator ?off (x_start (- 1)) x_momentum) =
             Some (Inr (Some [(1040018000, 8)]))"
    by (simp add: recorded_def geometric_length_def returned_lengths_def)
  from GetWeight_density_or_one [of ?on ?argon thick_slab "[(1040018000, 0)]" BoxNavigator
      "x_start (- 1)" x_momentum] pre segs
  have on: "GetWeight ?on ?argon = 3 \<and>
            returned_lengths (ComputePathLengths BoxNavigator ?on (x_start (- 1)) x_momentum) =
            Some (Inr (Some [(1040018000, 24)]))"
    by (simp add: recorded_def weighted_length_def returned_lengths_def)
  from segs off on show ?thesis by (simp add: segments_of_def)
qed

section \<open>Keys of the path-length list\<close>

lemma keys_AddPathLength: "map fst (AddPathLength k v pl) = map fst pl"
  by (induction pl) (auto simp: AddPathLength_def)

lemma keys_ScalePathLength: "map fst (ScalePathLength k v pl) = map fst pl"
  by (induction pl) (auto simp: ScalePathLength_def)

lemma keys_fold_ScalePathLength:
  "map fst (fold (\<lambda>pdgc acc. ScalePathLength pdgc c acc) ks pl) = map fst pl"
  by (induction ks arbitrary: pl) (auto simp: keys_ScalePathLength)

lemma keys_ScalePathLengths: "map fst (ScalePathLengths s pl) = map fst pl"
  by (simp add: ScalePathLengths_def keys_fold_ScalePathLength)

lemma SetAllToZero_keys: "SetAllToZero pl = map (\<lambda>k. (k, 0)) (map fst pl)"
  by (induction pl) (auto simp: SetAllToZero_def)

lemma keys_SetAllToZero: "map fst (SetAllToZero pl) = map fst pl"
  by (induction pl) (auto simp: SetAllToZero_def)

lemma AllZero_SetAllToZero: "AllZero (SetAllToZero pl)"
  by (induction pl) (auto simp: SetAllToZero_def AllZero_def)

lemma keys_mixture:
  "cpl_mixture_elements G s p mat eles (r, g, pl) = Some (r', g', pl') \<Longrightarrow> map fst pl' = map fst pl"
proof (induction eles arbitrary: r g pl)
  case Nil
  then show ?case by simp
next
  case (Cons ele eles)
  then show ?case
    by (auto simp: Let_def keys_AddPathLength split: option.splits)
qed

lemma keys_body_continue:
  assumes "cpl_body G s p (f, c, r, g, pl) = Some (Inl (f', c', r', g', pl'))"
  shows "map fst pl' = map fst pl"
  using assms
  by (auto simp: Let_def keys_AddPathLength split: if_splits option.splits seek_result.splits
      dest: keys_mixture)

lemma keys_body_exit:
  assumes "cpl_body G s p (f, c, r, g, pl) = Some (Inr e)"
  shows "case e of Finished g' pl' \<Rightarrow> map fst pl' = map fst pl
         | ReturnedEarly g' pl' \<Rightarrow> map fst pl' = map fst pl | Crashed \<Rightarrow> True"
  using assms
  by (auto simp: Let_def split: if_splits option.splits seek_result.splits)

lemma keys_traverse:
  assumes "cpl_traverse G s g pl x p = Some e"
  shows "case e of Finished g' pl' \<Rightarrow> map fst pl' = map fst pl
         | ReturnedEarly g' pl' \<Rightarrow> map fst pl' = map fst pl | Crashed \<Rightarrow> True"
proof (rule while_loop_invariant [where I = "\<lambda>(f, c, r, g, pl'). map fst pl' = map fst pl",
      OF assms [unfolded cpl_traverse_def Let_def]])
  show "case (False, True, \<lparr>fX = lvX x, fY = lvY x, fZ = lvZ x\<rparr>,
          SetCurrentDirection G (lvX p / lvP p) (lvY p / lvP p) (lvZ p / lvP p) g, pl) of
        (f, c, r, g, pl') \<Rightarrow> map fst pl' = map fst pl" by simp
next
  fix st st' assume "case st of (f, c, r, g, pl') \<Rightarrow> map fst pl' = map fst pl"
    "cpl_body G s p st = Some (Inl st')"
  then show "case st' of (f, c, r, g, pl') \<Rightarrow> map fst pl' = map fst pl"
    by (cases st; cases st') (auto simp del: cpl_body.simps dest: keys_body_continue)
next
  fix st e assume "case st of (f, c, r, g, pl') \<Rightarrow> map fst pl' = map fst pl"
    "cpl_body G s p st = Some (Inr e)"
  then show "case e of Finished g' pl' \<Rightarrow> map fst pl' = map fst pl
         | ReturnedEarly g' pl' \<Rightarrow> map fst pl' = map fst pl | Crashed \<Rightarrow> True"
    by (cases st) (auto simp del: cpl_body.simps dest!: keys_body_exit split: cpl_exit.splits)
qed



section \<open>Runs on concrete geometries\<close>

text \<open>
  Claim C2 (missing geometry). Run on an analyzer whose \<open>fGeometry\<close> is null:
  \<^verbatim>\<open>ComputeMaxPathLengths\<close> tests \<^verbatim>\<open>!fGeometry\<close> first and returns with the analyzer
  unchanged; \<^verbatim>\<open>ComputePathLengths\<close> has no such test and dereferences a null pointer;
  \<^verbatim>\<open>GenerateVertex\<close> resets the stored vertex to (0, 0, 0) before it tests
  \<^verbatim>\<open>!fGeometry\<close>, and dereferences \<open>fCurrVertex\<close> to do so.
\<close>

theorem ComputePathLengths_has_no_geometry_test:
  "ComputePathLengths G (s\<lparr>fGeometry := None\<rparr>) x p = Some (Inl NullPointer) \<and>
   ComputeMaxPathLengths G (s\<lparr>fGeometry := None\<rparr>) rg = Some (Inr (s\<lparr>fGeometry := None\<rparr>, rg)) \<and>
   GenerateVertex G (s\<lparr>fGeometry := None, fCurrVertex := Some v\<rparr>) rg x p tgtpdg =
     Some (Inr (s\<lparr>fGeometry := None, fCurrVertex := Some \<lparr>fX = 0, fY = 0, fZ = 0\<rparr>\<rparr>, rg)) \<and>
   GenerateVertex G (s\<lparr>fCurrVertex := None\<rparr>) rg x p tgtpdg = Some (Inl NullPointer)"
  by (simp add: ComputePathLengths_def ComputeMaxPathLengths_def GenerateVertex_def split: option.splits)

text \<open>
  Claim C7 (indices of the ray position). The position update of the first loop of
  \<^verbatim>\<open>GenerateVertex\<close> writes the components 1, 2 and 3; 3 is not an index of a
  3-vector. The x displacement goes to y, the y displacement to z, and the z displacement,
  through the bad index, to x; \<^verbatim>\<open>ComputePathLengths\<close> writes 0, 1 and 2.
\<close>

theorem gv_advance_writes_index_3:
  "map fst (gv_advance_writes step p) = [1, 2, 3] \<and> \<not> TVector3_valid_index 3 \<and>
   TVector3_writes (gv_advance_writes step p) r =
     \<lparr>fX = fX r + step * lvZ p / lvP p, fY = fY r + step * lvX p / lvP p,
      fZ = fZ r + step * lvY p / lvP p\<rparr> \<and>
   TVector3_writes (cpl_advance_writes step p) r =
     \<lparr>fX = fX r + step * lvX p / lvP p, fY = fY r + step * lvY p / lvP p,
      fZ = fZ r + step * lvZ p / lvP p\<rparr> \<and>
   TVector3_writes (gv_advance_writes 1 x_momentum) \<lparr>fX = 0, fY = 0, fZ = 0\<rparr> = \<lparr>fX = 0, fY = 1, fZ = 0\<rparr>"
  by (simp add: gv_advance_writes_def cpl_advance_writes_def TVector3_valid_index_def
      TVector3_writes_def TVector3_add_at_def x_momentum_def lvP_def)

text \<open>
  Claim C3 (first loop of \<^verbatim>\<open>GenerateVertex\<close> against \<^verbatim>\<open>ComputePathLengths\<close>). On the
  slabs argon [0,1] and iron [1,2], from (0, 1/2, 1/2) along x: after the first pass
  \<^verbatim>\<open>ComputePathLengths\<close> is at (1, 1/2, 1/2) and goes on to record 8 for iron, while
  \<^verbatim>\<open>GenerateVertex\<close> is at (0, 3/2, 1/2), outside the slabs, and ends with the total 0
  for iron.
\<close>

theorem GenerateVertex_stepping_differs:
  "next_position (cpl_body BoxNavigator (analyzer0 (Some argon_iron) [1040018000, 1056026000]) x_momentum
      (False, True, \<lparr>fX = 0, fY = 1/2, fZ = 1/2\<rparr>, SetCurrentDirection BoxNavigator 1 0 0 argon_iron,
       [(1040018000, 0), (1056026000, 0)])) = Some \<lparr>fX = 1, fY = 1/2, fZ = 1/2\<rparr> \<and>
   next_position (gv_length_body BoxNavigator (analyzer0 (Some argon_iron) [1040018000, 1056026000]) x_momentum
      1056026000
      (False, True, \<lparr>fX = 0, fY = 1/2, fZ = 1/2\<rparr>, SetCurrentDirection BoxNavigator 1 0 0 argon_iron, 0))
     = Some \<lparr>fX = 0, fY = 3/2, fZ = 1/2\<rparr> \<and>
   returned_lengths (ComputePathLengths BoxNavigator (analyzer0 (Some argon_iron) [1040018000, 1056026000])
      (x_start 0) x_momentum) = Some (Inr (Some [(1040018000, 1), (1056026000, 8)])) \<and>
   total_of (gv_length BoxNavigator (analyzer0 (Some argon_iron) [1040018000, 1056026000]) argon_iron
      (x_start 0) x_momentum 1056026000) = Some 0"
  by (simp add: cpl_defs gv_defs nav_defs world_defs)

text \<open>
  Claim C1 (mixtures). On the slabs water [0,1] (a mixture of two elements) and iron [1,2],
  from (0, 1/2, 1/2) along x: the loop over the elements asks for the boundary once per
  element and advances the position once per element, so that after the one segment of
  length 1 the position is x = 2 and the iron slab is never seen: its entry stays 0. With
  a single material in the first slab the iron entry is 8.
\<close>

theorem mixture_advances_once_per_element:
  "map_option (\<lambda>(r, g, pl). (r, pl))
     (cpl_mixture_elements BoxNavigator (analyzer0 (Some water_iron) [1001001000, 1016008000, 1056026000])
        x_momentum \<lparr>matA = 6, matZ = 3, matDensity = 1,
                     matElements = Some [\<lparr>eleA = 1, eleZ = 1\<rparr>, \<lparr>eleA = 16, eleZ = 8\<rparr>]\<rparr>
        [\<lparr>eleA = 1, eleZ = 1\<rparr>, \<lparr>eleA = 16, eleZ = 8\<rparr>]
        (\<lparr>fX = 0, fY = 1/2, fZ = 1/2\<rparr>,
         FindNode BoxNavigator 0 (1/2) (1/2) (SetCurrentDirection BoxNavigator 1 0 0 water_iron),
         [(1001001000, 0), (1016008000, 0), (1056026000, 0)]))
     = Some (\<lparr>fX = 2, fY = 1/2, fZ = 1/2\<rparr>, [(1001001000, 1), (1016008000, 1), (1056026000, 0)]) \<and>
   returned_lengths (ComputePathLengths BoxNavigator
      (analyzer0 (Some water_iron) [1001001000, 1016008000, 1056026000]) (x_start 0) x_momentum)
     = Some (Inr (Some [(1001001000, 1), (1016008000, 1), (1056026000, 0)])) \<and>
   returned_lengths (ComputePathLengths BoxNavigator
      (analyzer0 (Some argon_iron) [1040018000, 1056026000]) (x_start 0) x_momentum)
     = Some (Inr (Some [(1040018000, 1), (1056026000, 8)]))"
  by (simp add: cpl_defs nav_defs world_defs)

text \<open>
  Claim C4 (\<^verbatim>\<open>ComputeMaxPathLengthPDG\<close>). On two adjacent argon slabs of length 1 with
  densities 2 and 1 the function returns (1 + 1) * 1 = 2: the summed length times the
  weight of the last matching segment. The sum of length times density over the segments
  is 1 * 2 + 1 * 1 = 3, which is what \<^verbatim>\<open>ComputePathLengths\<close> records on the same ray.
\<close>

theorem ComputeMaxPathLengthPDG_last_weight:
  "map_option fst (ComputeMaxPathLengthPDG BoxNavigator (analyzer0 (Some argon_argon) [1040018000])
      argon_argon \<lparr>fX = 0, fY = 1/2, fZ = 1/2\<rparr> \<lparr>fX = 1, fY = 0, fZ = 0\<rparr> 1040018000) = Some 2 \<and>
   returned_lengths (ComputePathLengths BoxNavigator (analyzer0 (Some argon_argon) [1040018000])
      (x_start 0) x_momentum) = Some (Inr (Some [(1040018000, 3)]))"
  by (simp add: cpl_defs cmpl_defs nav_defs world_defs)

section \<open>Calling ComputePathLengths twice\<close>

lemma mixture_weight_cong:
  "GetWeight s' = GetWeight s \<Longrightarrow>
   cpl_mixture_elements G s' p mat eles st = cpl_mixture_elements G s p mat eles st"
proof (induction eles arbitrary: st)
  case Nil
  show ?case by simp
next
  case (Cons ele eles)
  obtain r g pl where st: "st = (r, g, pl)" by (cases st) auto
  show ?case using Cons by (simp add: st split: option.splits)
qed

lemma body_weight_cong:
  assumes "GetWeight s' = GetWeight s"
  shows "cpl_body G s' p = cpl_body G s p"
proof (rule ext)
  fix st :: "bool \<times> bool \<times> TVector3 \<times> 'a \<times> PathLengthList"
  obtain f c r g pl where st: "st = (f, c, r, g, pl)" by (cases st) auto
  show "cpl_body G s' p st = cpl_body G s p st"
    unfolding st cpl_body.simps assms mixture_weight_cong [OF assms] by (rule refl)
qed

lemma body_first_probe:
  assumes "FindNode G (fX r) (fY r) (fZ r) (SetCurrentPoint G (fX r) (fY r) (fZ r) ga) =
           FindNode G (fX r) (fY r) (fZ r) (SetCurrentPoint G (fX r) (fY r) (fZ r) gb)"
  shows "cpl_body G s p (False, True, r, ga, pl) = cpl_body G s p (False, True, r, gb, pl)"
  using assms by simp

lemma traverse_same_start:
  assumes w: "GetWeight s' = GetWeight s"
    and probe: "FindNode G (lvX x) (lvY x) (lvZ x) (SetCurrentPoint G (lvX x) (lvY x) (lvZ x)
                  (SetCurrentDirection G (lvX p / lvP p) (lvY p / lvP p) (lvZ p / lvP p) g')) =
                FindNode G (lvX x) (lvY x) (lvZ x) (SetCurrentPoint G (lvX x) (lvY x) (lvZ x)
                  (SetCurrentDirection G (lvX p / lvP p) (lvY p / lvP p) (lvZ p / lvP p) g))"
  shows "cpl_traverse G s' g' pl x p = cpl_traverse G s g pl x p"
proof -
  let ?r = "\<lparr>fX = lvX x, fY = lvY x, fZ = lvZ x\<rparr>"
  let ?d = "\<lambda>g. SetCurrentDirection G (lvX p / lvP p) (lvY p / lvP p) (lvZ p / lvP p) g"
  have "cpl_body G s p (False, True, ?r, ?d g', pl) = cpl_body G s p (False, True, ?r, ?d g, pl)"
    by (rule body_first_probe) (simp add: probe)
  then have "while_loop (cpl_body G s p) (False, True, ?r, ?d g', pl) =
             while_loop (cpl_body G s p) (False, True, ?r, ?d g, pl)"
    by (simp only: while_loop.simps [of "cpl_body G s p" "(False, True, ?r, ?d g', pl)"]
        while_loop.simps [of "cpl_body G s p" "(False, True, ?r, ?d g, pl)"])
  then show ?thesis
    by (simp add: cpl_traverse_def body_weight_cong [OF w] del: cpl_body.simps)
qed

text \<open>
  Claim C8 (calling \<^verbatim>\<open>ComputePathLengths\<close> twice). If a call returns, and the navigator
  placed again at the start of the ray is in the state it was in the first time (the
  geometry is unchanged), then a second call with the same point and direction returns
  the same analyzer, hence the same list; and the result of a call does not depend on the
  values the list held before, since the call sets them to zero first.
\<close>

theorem ComputePathLengths_twice:
  assumes first: "ComputePathLengths G s x p = Some (Inr s1)"
    and g0: "fGeometry s = Some g0" and g1: "fGeometry s1 = Some g1"
    and probe: "FindNode G (lvX x) (lvY x) (lvZ x) (SetCurrentPoint G (lvX x) (lvY x) (lvZ x)
                  (SetCurrentDirection G (lvX p / lvP p) (lvY p / lvP p) (lvZ p / lvP p) g1)) =
                FindNode G (lvX x) (lvY x) (lvZ x) (SetCurrentPoint G (lvX x) (lvY x) (lvZ x)
                  (SetCurrentDirection G (lvX p / lvP p) (lvY p / lvP p) (lvZ p / lvP p) g0))"
  shows "ComputePathLengths G s1 x p = Some (Inr s1) \<and>
         (\<forall>pl pl'. fCurrPathLengthList s = Some pl \<and> map fst pl' = map fst pl \<longrightarrow>
            ComputePathLengths G (s\<lparr>fCurrPathLengthList := Some pl'\<rparr>) x p = Some (Inr s1))"
proof -
  from first obtain pl0 where pl0: "fCurrPathLengthList s = Some pl0"
    by (auto simp: ComputePathLengths_def split: option.splits)
  from first g0 pl0 obtain e where e: "cpl_traverse G s g0 (SetAllToZero pl0) x p = Some e"
    by (auto simp: ComputePathLengths_def split: option.splits)
  have keys: "case e of Finished g' pl' \<Rightarrow> map fst pl' = map fst pl0
         | ReturnedEarly g' pl' \<Rightarrow> map fst pl' = map fst pl0 | Crashed \<Rightarrow> True"
    using keys_traverse [OF e] by (cases e) (simp_all add: keys_SetAllToZero)
  have zero: "\<And>a b. map fst a = map fst b \<Longrightarrow> SetAllToZero a = SetAllToZero b"
    by (simp add: SetAllToZero_keys)
  have w: "\<And>a b. GetWeight (s\<lparr>fGeometry := a, fCurrPathLengthList := b\<rparr>) = GetWeight s"
    by (simp add: GetWeight_def fun_eq_iff)
  have sc: "\<And>a b pl. ScalePathLengths (s\<lparr>fGeometry := a, fCurrPathLengthList := b\<rparr>) pl = ScalePathLengths s pl"
    by (simp add: ScalePathLengths_def)
  have again: "ComputePathLengths G s1 x p = Some (Inr s1)"
  proof (cases e)
    case (Finished g' pl')
    with first g0 pl0 e have s1: "s1 = s\<lparr>fGeometry := Some g', fCurrPathLengthList := Some (ScalePathLengths s pl')\<rparr>"
      by (simp add: ComputePathLengths_def)
    with g1 have gg: "g1 = g'" by simp
    have k: "SetAllToZero (ScalePathLengths s pl') = SetAllToZero pl0"
      using keys Finished by (intro zero) (simp add: keys_ScalePathLengths)
    have "cpl_traverse G s1 g' (SetAllToZero pl0) x p = cpl_traverse G s g0 (SetAllToZero pl0) x p"
      using probe gg by (intro traverse_same_start) (simp_all add: s1 w)
    with e Finished show ?thesis
      by (simp add: ComputePathLengths_def s1 k sc)
  next
    case (ReturnedEarly g' pl')
    with first g0 pl0 e have s1: "s1 = s\<lparr>fGeometry := Some g', fCurrPathLengthList := Some pl'\<rparr>"
      by (simp add: ComputePathLengths_def)
    with g1 have gg: "g1 = g'" by simp
    have k: "SetAllToZero pl' = SetAllToZero pl0"
      using keys ReturnedEarly by (intro zero) simp
    have "cpl_traverse G s1 g' (SetAllToZero pl0) x p = cpl_traverse G s g0 (SetAllToZero pl0) x p"
      using probe gg by (intro traverse_same_start) (simp_all add: s1 w)
    with e ReturnedEarly show ?thesis
      by (simp add: ComputePathLengths_def s1 k)
  next
    case Crashed
    with first g0 pl0 e show ?thesis by (simp add: ComputePathLengths_def)
  qed
  have leak: "ComputePathLengths G (s\<lparr>fCurrPathLengthList := Some pl'\<rparr>) x p = Some (Inr s1)"
    if "fCurrPathLengthList s = Some pl" "map fst pl' = map fst pl" for pl pl'
  proof -
    from that pl0 have k: "SetAllToZero pl' = SetAllToZero pl0" by (intro zero) simp
    have w': "GetWeight (s\<lparr>fCurrPathLengthList := Some pl'\<rparr>) = GetWeight s"
      by (simp add: GetWeight_def fun_eq_iff)
    have t: "cpl_traverse G (s\<lparr>fCurrPathLengthList := Some pl'\<rparr>) g0 (SetAllToZero pl0) x p =
             cpl_traverse G s g0 (SetAllToZero pl0) x p"
      by (rule traverse_same_start [OF w' refl])
    have sc': "\<And>pl. ScalePathLengths (s\<lparr>fCurrPathLengthList := Some pl'\<rparr>) pl = ScalePathLengths s pl"
      by (simp add: ScalePathLengths_def)
    from first g0 pl0 e show ?thesis
      by (cases e) (simp_all add: ComputePathLengths_def k t sc')
  qed
  from again leak show ?thesis by blast
qed


theorem ComputePathLengths_twice_witness:
  "ComputePathLengths BoxNavigator (analyzer0 (Some argon_iron) [1040018000, 1056026000])
     (x_start (- 1)) x_momentum =
   Some (Inr ((analyzer0 (Some argon_iron) [1040018000, 1056026000])
     \<lparr>fGeometry := Some (argon_iron\<lparr>npoint := \<lparr>fX = 2, fY = 1/2, fZ = 1/2\<rparr>,
                                      ndir := \<lparr>fX = 1, fY = 0, fZ = 0\<rparr>\<rparr>),
      fCurrPathLengthList := Some [(1040018000, 1), (1056026000, 8)]\<rparr>)) \<and>
   ComputePathLengths BoxNavigator ((analyzer0 (Some argon_iron) [1040018000, 1056026000])
     \<lparr>fGeometry := Some (argon_iron\<lparr>npoint := \<lparr>fX = 2, fY = 1/2, fZ = 1/2\<rparr>,
                                      ndir := \<lparr>fX = 1, fY = 0, fZ = 0\<rparr>\<rparr>),
      fCurrPathLengthList := Some [(1040018000, 1), (1056026000, 8)]\<rparr>)
     (x_start (- 1)) x_momentum =
   Some (Inr ((analyzer0 (Some argon_iron) [1040018000, 1056026000])
     \<lparr>fGeometry := Some (argon_iron\<lparr>npoint := \<lparr>fX = 2, fY = 1/2, fZ = 1/2\<rparr>,
                                      ndir := \<lparr>fX = 1, fY = 0, fZ = 0\<rparr>\<rparr>),
      fCurrPathLengthList := Some [(1040018000, 1), (1056026000, 8)]\<rparr>)) \<and>
   ComputePathLengths BoxNavigator ((analyzer0 (Some argon_iron) [1040018000, 1056026000])
     \<lparr>fCurrPathLengthList := Some [(1040018000, 7), (1056026000, 9)]\<rparr>)
     (x_start (- 1)) x_momentum =
   Some (Inr ((analyzer0 (Some argon_iron) [1040018000, 1056026000])
     \<lparr>fGeometry := Some (argon_iron\<lparr>npoint := \<lparr>fX = 2, fY = 1/2, fZ = 1/2\<rparr>,
                                      ndir := \<lparr>fX = 1, fY = 0, fZ = 0\<rparr>\<rparr>),
      fCurrPathLengthList := Some [(1040018000, 1), (1056026000, 8)]\<rparr>))"
proof -
  let ?s = "analyzer0 (Some argon_iron) [1040018000, 1056026000]"
  let ?g1 = "argon_iron\<lparr>npoint := \<lparr>fX = 2, fY = 1/2, fZ = 1/2\<rparr>, ndir := \<lparr>fX = 1, fY = 0, fZ = 0\<rparr>\<rparr>"
  let ?s1 = "?s\<lparr>fGeometry := Some ?g1, fCurrPathLengthList := Some [(1040018000, 1), (1056026000, 8)]\<rparr>"
  have first: "ComputePathLengths BoxNavigator ?s (x_start (- 1)) x_momentum = Some (Inr ?s1)"
    by (simp add: cpl_defs nav_defs world_defs)
  have g0: "fGeometry ?s = Some argon_iron" by (simp add: analyzer0_def)
  have g1: "fGeometry ?s1 = Some ?g1" by simp
  have probe: "FindNode BoxNavigator (lvX (x_start (- 1))) (lvY (x_start (- 1))) (lvZ (x_start (- 1)))
      (SetCurrentPoint BoxNavigator (lvX (x_start (- 1))) (lvY (x_start (- 1))) (lvZ (x_start (- 1)))
        (SetCurrentDirection BoxNavigator (lvX x_momentum / lvP x_momentum)
           (lvY x_momentum / lvP x_momentum) (lvZ x_momentum / lvP x_momentum) ?g1)) =
     FindNode BoxNavigator (lvX (x_start (- 1))) (lvY (x_start (- 1))) (lvZ (x_start (- 1)))
      (SetCurrentPoint BoxNavigator (lvX (x_start (- 1))) (lvY (x_start (- 1))) (lvZ (x_start (- 1)))
        (SetCurrentDirection BoxNavigator (lvX x_momentum / lvP x_momentum)
           (lvY x_momentum / lvP x_momentum) (lvZ x_momentum / lvP x_momentum) argon_iron))"
    by (simp add: BoxNavigator_def world_defs nav0_def)
  have pl: "fCurrPathLengthList ?s = Some [(1040018000, 0), (1056026000, 0)] \<and>
            map fst [(1040018000 :: int, 7 :: real), (1056026000, 9)] = map fst [(1040018000 :: int, 0 :: real), (1056026000, 0)]"
    by (simp add: analyzer0_def)
  from ComputePathLengths_twice [OF first g0 g1 probe] first pl
  show ?thesis by blast
qed

section \<open>A zero total in GenerateVertex\<close>

lemma enter_within_seek:
  "enter_within G k g = Some g' \<Longrightarrow>
   while_loop (step_while_not_entering G) (g, GetStep G g) = Some (g', GetStep G g')"
proof (induction k arbitrary: g)
  case 0
  then show ?case by (subst while_loop.simps) (simp split: if_splits)
next
  case (Suc k)
  show ?case
  proof (cases "IsEntering G g")
    case True
    with Suc.prems show ?thesis by (subst while_loop.simps) simp
  next
    case False
    with Suc.prems have "enter_within G k (Step G g) = Some g'" by simp
    from Suc.IH [OF this] False show ?thesis by (subst while_loop.simps) (simp add: Let_def)
  qed
qed

lemma enter_within_next:
  "enter_within G k (FindNextBoundary G g) = Some g' \<Longrightarrow>
   next_boundary_step G g = Some (g', GetStep G g')"
  by (simp add: next_boundary_step_def Let_def enter_within_seek)

lemma gv_approach_pass:
  assumes "gv_approaches G k st"
  shows "gv_length_body G s p tgtpdg (False, c, fst st, snd st, d) =
         Some (Inl (False, False, fst (gv_pass G k p st), snd (gv_pass G k p st), d))"
proof -
  from assms obtain v g' where v: "GetCurrentVolume G (gv_probe G st) = Some v"
    and out: "IsOutside G (gv_probe G st)"
    and ent: "enter_within G k (FindNextBoundary G (gv_probe G st)) = Some g'"
    by (auto simp: gv_approaches_def)
  from enter_within_next [OF ent]
  have nbs: "next_boundary_step G (gv_probe G st) = Some (g', GetStep G g')" .
  show ?thesis
    using v out nbs ent unfolding gv_probe_def gv_pass_def
    by (simp add: Let_def)
qed

lemma gv_crossing_pass:
  assumes "gv_adds_nothing G s k tgtpdg st" and "\<not> f \<or> c"
  shows "gv_length_body G s p tgtpdg (f, c, fst st, snd st, 0) =
         Some (Inl (True, True, fst (gv_pass G k p st), snd (gv_pass G k p st), 0))"
proof -
  from assms(1) obtain v med mat g' where v: "GetCurrentVolume G (gv_probe G st) = Some v"
    and ins: "\<not> IsOutside G (gv_probe G st)"
    and med: "volMedium v = Some med" and mat: "medMaterial med = Some mat"
    and ent: "enter_within G k (FindNextBoundary G (gv_probe G st)) = Some g'"
    and zero: "GetTargetPdgCode G mat \<noteq> tgtpdg \<or> GetStep G g' * GetWeight s mat = 0"
    by (auto simp: gv_adds_nothing_def split: option.splits)
  from enter_within_next [OF ent]
  have nbs: "next_boundary_step G (gv_probe G st) = Some (g', GetStep G g')" .
  show ?thesis
    using v ins med mat nbs ent zero assms(2) unfolding gv_probe_def gv_pass_def
    by (auto simp: Let_def)
qed

lemma gv_stop_pass:
  assumes "gv_stops G f st" and "\<not> f \<or> c"
  shows "while_loop (gv_length_body G s p tgtpdg) (f, c, fst st, snd st, d) =
         Some (Total (gv_probe G st) d)"
proof -
  from assms(1) obtain v where v: "GetCurrentVolume G (gv_probe G st) = Some v"
    by (auto simp: gv_stops_def split: option.splits)
  show ?thesis
  proof (cases "IsOutside G (gv_probe G st)")
    case True
    with assms v have "f" by (simp add: gv_stops_def)
    with assms(2) v True
    have "gv_length_body G s p tgtpdg (f, c, fst st, snd st, d) = Some (Inr (Total (gv_probe G st) d))"
      unfolding gv_probe_def by (simp add: Let_def)
    then show ?thesis by (rule while_loop_exit)
  next
    case False
    with assms(1) v have "volMedium v = None \<or> (\<exists>med. volMedium v = Some med \<and> medMaterial med = None)"
      by (auto simp: gv_stops_def split: option.splits)
    with assms(2) v False
    have "gv_length_body G s p tgtpdg (f, c, fst st, snd st, d) =
          Some (Inl (True, False, fst st, gv_probe G st, d))"
      unfolding gv_probe_def by (auto simp: Let_def)
    moreover have "gv_length_body G s p tgtpdg (True, False, fst st, gv_probe G st, d) =
          Some (Inr (Total (gv_probe G st) d))"
      by simp
    ultimately show ?thesis
      by (simp only: while_loop_continue while_loop_exit)
  qed
qed

lemma gv_crossings_then_stop:
  assumes "\<forall>i<n. gv_adds_nothing G s k tgtpdg ((gv_pass G k p ^^ i) st)"
    and "gv_stops G (f \<or> 0 < n) ((gv_pass G k p ^^ n) st)"
    and "\<not> f \<or> c"
  shows "while_loop (gv_length_body G s p tgtpdg) (f, c, fst st, snd st, 0) =
         Some (Total (gv_probe G ((gv_pass G k p ^^ n) st)) 0)"
  using assms
proof (induction n arbitrary: f c st)
  case 0
  then show ?case by (simp add: gv_stop_pass del: gv_length_body.simps)
next
  case (Suc n)
  from Suc.prems(1) have "gv_adds_nothing G s k tgtpdg st" by force
  from gv_crossing_pass [OF this Suc.prems(3)]
  have "while_loop (gv_length_body G s p tgtpdg) (f, c, fst st, snd st, 0) =
        while_loop (gv_length_body G s p tgtpdg)
          (True, True, fst (gv_pass G k p st), snd (gv_pass G k p st), 0)"
    by (rule while_loop_continue)
  also have "\<dots> = Some (Total (gv_probe G ((gv_pass G k p ^^ n) (gv_pass G k p st))) 0)"
  proof (rule Suc.IH)
    show "\<forall>i<n. gv_adds_nothing G s k tgtpdg ((gv_pass G k p ^^ i) (gv_pass G k p st))"
    proof (intro allI impI)
      fix i assume "i < n"
      then have "Suc i < Suc n" by simp
      with Suc.prems(1) have "gv_adds_nothing G s k tgtpdg ((gv_pass G k p ^^ Suc i) st)" by blast
      then show "gv_adds_nothing G s k tgtpdg ((gv_pass G k p ^^ i) (gv_pass G k p st))"
        by (simp add: funpow_swap1)
    qed
    show "gv_stops G (True \<or> 0 < n) ((gv_pass G k p ^^ n) (gv_pass G k p st))"
      using Suc.prems(2) by (simp add: funpow_swap1)
    show "\<not> True \<or> True" by simp
  qed
  finally show ?case by (simp add: funpow_swap1)
qed

lemma gv_approach_then_crossings:
  assumes "\<forall>i<m. gv_approaches G k ((gv_pass G k p ^^ i) st)"
    and "\<forall>i<n. gv_adds_nothing G s k tgtpdg ((gv_pass G k p ^^ (m + i)) st)"
    and "gv_stops G (0 < n) ((gv_pass G k p ^^ (m + n)) st)"
  shows "while_loop (gv_length_body G s p tgtpdg) (False, c, fst st, snd st, 0) =
         Some (Total (gv_probe G ((gv_pass G k p ^^ (m + n)) st)) 0)"
  using assms
proof (induction m arbitrary: c st)
  case 0
  then show ?case by (intro gv_crossings_then_stop) simp_all
next
  case (Suc m)
  from Suc.prems(1) have "gv_approaches G k st" by force
  from gv_approach_pass [OF this]
  have "while_loop (gv_length_body G s p tgtpdg) (False, c, fst st, snd st, 0) =
        while_loop (gv_length_body G s p tgtpdg)
          (False, False, fst (gv_pass G k p st), snd (gv_pass G k p st), 0)"
    by (rule while_loop_continue)
  also have "\<dots> = Some (Total (gv_probe G ((gv_pass G k p ^^ (m + n)) (gv_pass G k p st))) 0)"
  proof (rule Suc.IH)
    show "\<forall>i<m. gv_approaches G k ((gv_pass G k p ^^ i) (gv_pass G k p st))"
    proof (intro allI impI)
      fix i assume "i < m"
      then have "Suc i < Suc m" by simp
      with Suc.prems(1) have "gv_approaches G k ((gv_pass G k p ^^ Suc i) st)" by blast
      then show "gv_approaches G k ((gv_pass G k p ^^ i) (gv_pass G k p st))"
        by (simp add: funpow_swap1)
    qed
    show "\<forall>i<n. gv_adds_nothing G s k tgtpdg ((gv_pass G k p ^^ (m + i)) (gv_pass G k p st))"
    proof (intro allI impI)
      fix i assume "i < n"
      with Suc.prems(2) have "gv_adds_nothing G s k tgtpdg ((gv_pass G k p ^^ (Suc m + i)) st)" by blast
      then show "gv_adds_nothing G s k tgtpdg ((gv_pass G k p ^^ (m + i)) (gv_pass G k p st))"
        by (simp add: funpow_swap1)
    qed
    show "gv_stops G (0 < n) ((gv_pass G k p ^^ (m + n)) (gv_pass G k p st))"
      using Suc.prems(3) by (simp add: funpow_swap1)
  qed
  finally show ?case by (simp add: funpow_swap1)
qed

text \<open>
  Claim C5, as stated, fails twice. The stored vertex was (1, 2, 3), the ray meets no
  iron, and the call returns the vertex (0, 0, 0). And on a ray that passes beside the
  only slab, where the total is zero for every nuclide, the call does not return: the
  navigator is never entering, and the first loop calls \<^verbatim>\<open>Step()\<close> for ever.
\<close>

theorem GenerateVertex_zero_total_counterexample:
  "fCurrVertex ((analyzer0 (Some argon_argon) [1040018000])\<lparr>fCurrVertex := Some \<lparr>fX = 1, fY = 2, fZ = 3\<rparr>\<rparr>)
     = Some \<lparr>fX = 1, fY = 2, fZ = 3\<rparr> \<and>
   returned_vertex (GenerateVertex BoxNavigator
      ((analyzer0 (Some argon_argon) [1040018000])\<lparr>fCurrVertex := Some \<lparr>fX = 1, fY = 2, fZ = 3\<rparr>\<rparr>)
      half_draws (x_start 0) x_momentum 1056026000) = Some (Inr (Some \<lparr>fX = 0, fY = 0, fZ = 0\<rparr>)) \<and>
   GenerateVertex BoxNavigator (analyzer0 (Some (one_slab double_1E30)) [1040018000])
      half_draws passing_start x_momentum 1040018000 = None"
proof (intro conjI)
  show "fCurrVertex ((analyzer0 (Some argon_argon) [1040018000])\<lparr>fCurrVertex := Some \<lparr>fX = 1, fY = 2, fZ = 3\<rparr>\<rparr>)
     = Some \<lparr>fX = 1, fY = 2, fZ = 3\<rparr>" by simp
  show "returned_vertex (GenerateVertex BoxNavigator
      ((analyzer0 (Some argon_argon) [1040018000])\<lparr>fCurrVertex := Some \<lparr>fX = 1, fY = 2, fZ = 3\<rparr>\<rparr>)
      half_draws (x_start 0) x_momentum 1056026000) = Some (Inr (Some \<lparr>fX = 0, fY = 0, fZ = 0\<rparr>))"
    by (simp add: cpl_defs gv_defs nav_defs world_defs)
  let ?I = "\<lambda>(n, step :: real). nworld n = [slab 0 1 (solid 40 18 2)] \<and> fY (npoint n) = 5 \<and>
              fY (ndir n) = 0 \<and> \<not> nentering n"
  let ?probe = "FindNode BoxNavigator (- 1) 5 (1/2)
        (SetCurrentPoint BoxNavigator (- 1) 5 (1/2)
           (SetCurrentDirection BoxNavigator 1 0 0 (one_slab double_1E30)))"
  have seek: "next_boundary_step BoxNavigator ?probe = None"
    unfolding next_boundary_step_def Let_def
  proof (rule while_loop_diverges [where I = ?I])
    show "?I (FindNextBoundary BoxNavigator ?probe, GetStep BoxNavigator (FindNextBoundary BoxNavigator ?probe))"
      by (simp add: BoxNavigator_def one_slab_def nav0_def passing_ray_outside)
  next
    fix st :: "navigator \<times> real"
    assume inv: "?I st"
    obtain n step where st: "st = (n, step)" by (cases st) auto
    have "nav_step n = n\<lparr>npoint := ray_at (npoint n) (ndir n) (nstep n), nstep := nbig n, nentering := False\<rparr>"
      using inv st by (simp add: nav_step_def passing_ray_outside ray_at_def)
    with inv st show "\<exists>st'. step_while_not_entering BoxNavigator st = Some (Inl st') \<and> ?I st'"
      by (simp add: BoxNavigator_def ray_at_def)
  qed
  have out: "nav_find ?probe = None"
    by (simp add: BoxNavigator_def one_slab_def nav0_def passing_ray_outside)
  show "GenerateVertex BoxNavigator (analyzer0 (Some (one_slab double_1E30)) [1040018000])
      half_draws passing_start x_momentum 1040018000 = None"
    using seek out
    by (simp add: GenerateVertex_def gv_length_def analyzer0_def passing_start_def
        x_momentum_def lvP_def Let_def while_loop.simps [of _ "(False, True, _)"])
      (simp add: BoxNavigator_def)
qed

text \<open>
  Claim C5, amended. \<^verbatim>\<open>GenerateVertex\<close> sets the stored vertex to (0, 0, 0) when it is
  entered. If the first loop, after \<open>m\<close> passes outside the geometry with a boundary ahead,
  makes \<open>n\<close> passes through materials that add nothing to the total (not of the target
  nuclide, or of step times weight 0) and then comes outside or to a volume without
  medium or material, the call returns, without a crash and without drawing a random
  number, and the vertex it returns is (0, 0, 0): the previous vertex is not kept.
\<close>

theorem GenerateVertex_zero_total:
  assumes "fCurrVertex s = Some v0" and "fGeometry s = Some g"
    and "\<forall>i<m. gv_approaches G k ((gv_pass G k p ^^ i) (gv_start G g x p))"
    and "\<forall>i<n. gv_adds_nothing G s k tgtpdg ((gv_pass G k p ^^ (m + i)) (gv_start G g x p))"
    and "gv_stops G (0 < n) ((gv_pass G k p ^^ (m + n)) (gv_start G g x p))"
  shows "GenerateVertex G s rg x p tgtpdg =
         Some (Inr (s\<lparr>fCurrVertex := Some \<lparr>fX = 0, fY = 0, fZ = 0\<rparr>,
                      fGeometry := Some (gv_probe G ((gv_pass G k p ^^ (m + n)) (gv_start G g x p)))\<rparr>, rg))"
proof -
  let ?s1 = "s\<lparr>fCurrVertex := Some \<lparr>fX = 0, fY = 0, fZ = 0\<rparr>\<rparr>"
  have gw: "GetWeight ?s1 = GetWeight s"
    by (simp add: fun_eq_iff GetWeight_def)
  have w: "gv_adds_nothing G ?s1 k tgtpdg = gv_adds_nothing G s k tgtpdg"
    by (intro ext) (simp only: gv_adds_nothing_def gw)
  have "while_loop (gv_length_body G ?s1 p tgtpdg)
          (False, True, fst (gv_start G g x p), snd (gv_start G g x p), 0) =
        Some (Total (gv_probe G ((gv_pass G k p ^^ (m + n)) (gv_start G g x p))) 0)"
    using assms(3-5) by (intro gv_approach_then_crossings) (simp_all add: w)
  then have "gv_length G ?s1 g x p tgtpdg =
        Some (Total (gv_probe G ((gv_pass G k p ^^ (m + n)) (gv_start G g x p))) 0)"
    by (simp add: gv_length_def gv_start_def Let_def del: gv_length_body.simps)
  with assms(1,2) show ?thesis by (simp add: GenerateVertex_def)
qed

text \<open>
  The amended claim on a walk of one pass outside and two passes through argon, for the
  target iron: the stored vertex (1, 2, 3) is replaced by (0, 0, 0) and the random source
  is untouched.
\<close>

theorem GenerateVertex_zero_total_witness:
  "GenerateVertex BoxNavigator
     ((analyzer0 (Some offset_boxes) [1040018000])\<lparr>fCurrVertex := Some \<lparr>fX = 1, fY = 2, fZ = 3\<rparr>\<rparr>)
     half_draws (x_start (- 1)) x_momentum 1056026000 =
   Some (Inr ((analyzer0 (Some offset_boxes) [1040018000])
     \<lparr>fCurrVertex := Some \<lparr>fX = 0, fY = 0, fZ = 0\<rparr>,
      fGeometry := Some (offset_boxes\<lparr>npoint := \<lparr>fX = - 1, fY = 5/2, fZ = 1/2\<rparr>,
                                       ndir := \<lparr>fX = 1, fY = 0, fZ = 0\<rparr>\<rparr>)\<rparr>,
     half_draws))"
proof -
  let ?s = "(analyzer0 (Some offset_boxes) [1040018000])\<lparr>fCurrVertex := Some \<lparr>fX = 1, fY = 2, fZ = 3\<rparr>\<rparr>"
  let ?pass = "gv_pass BoxNavigator 0 x_momentum"
  let ?st0 = "gv_start BoxNavigator offset_boxes (x_start (- 1)) x_momentum"
  let ?d = "\<lparr>fX = 1, fY = 0, fZ = 0\<rparr>"
  let ?st1 = "(\<lparr>fX = - 1, fY = 3/2, fZ = 1/2\<rparr>,
               offset_boxes\<lparr>npoint := \<lparr>fX = - 1, fY = 1/2, fZ = 1/2\<rparr>, ndir := ?d, nstep := 1, nentering := True\<rparr>)"
  let ?st2 = "(\<lparr>fX = - 1, fY = 2, fZ = 1/2\<rparr>,
               offset_boxes\<lparr>npoint := \<lparr>fX = - 1, fY = 3/2, fZ = 1/2\<rparr>, ndir := ?d, nstep := 1/2, nentering := True\<rparr>)"
  let ?st3 = "(\<lparr>fX = - 1, fY = 5/2, fZ = 1/2\<rparr>,
               offset_boxes\<lparr>npoint := \<lparr>fX = - 1, fY = 2, fZ = 1/2\<rparr>, ndir := ?d, nstep := 1/2, nentering := True\<rparr>)"
  have p1: "?pass ?st0 = ?st1"
    by (simp add: zero_defs gv_defs cpl_defs nav_defs)
  have p2: "?pass ?st1 = ?st2"
    by (simp add: zero_defs gv_defs cpl_defs nav_defs)
  have p3: "?pass ?st2 = ?st3"
    by (simp add: zero_defs gv_defs cpl_defs nav_defs)
  have a0: "gv_approaches BoxNavigator 0 ?st0"
    by (simp add: zero_defs gv_defs cpl_defs nav_defs)
  have c1: "gv_adds_nothing BoxNavigator ?s 0 1056026000 ?st1"
    by (simp add: zero_defs gv_defs cpl_defs nav_defs)
  have c2: "gv_adds_nothing BoxNavigator ?s 0 1056026000 ?st2"
    by (simp add: zero_defs gv_defs cpl_defs nav_defs)
  have s3: "gv_stops BoxNavigator True ?st3"
    by (simp add: zero_defs gv_defs cpl_defs nav_defs)
  have fin: "gv_probe BoxNavigator ?st3 =
             offset_boxes\<lparr>npoint := \<lparr>fX = - 1, fY = 5/2, fZ = 1/2\<rparr>, ndir := ?d\<rparr>"
    by (simp add: zero_defs gv_defs cpl_defs nav_defs)
  have v: "fCurrVertex ?s = Some \<lparr>fX = 1, fY = 2, fZ = 3\<rparr>" by simp
  have g: "fGeometry ?s = Some offset_boxes" by (simp add: analyzer0_def)
  have h1: "\<forall>i<Suc 0. gv_approaches BoxNavigator 0 ((?pass ^^ i) ?st0)"
    using a0 by simp
  have h2: "\<forall>i<Suc (Suc 0). gv_adds_nothing BoxNavigator ?s 0 1056026000 ((?pass ^^ (Suc 0 + i)) ?st0)"
    using c1 c2 by (simp add: All_less_Suc p1 p2)
  have h3: "gv_stops BoxNavigator (0 < Suc (Suc 0)) ((?pass ^^ (Suc 0 + Suc (Suc 0))) ?st0)"
    using s3 by (simp add: p1 p2 p3)
  from GenerateVertex_zero_total [OF v g h1 h2 h3, of half_draws] fin
  show ?thesis by (simp add: p1 p2 p3)
qed

section \<open>Rays that never enter\<close>

lemma seek_never_enters:
  assumes "\<not> IsEntering G g" and "double_9_99E29 < GetStep G (Step G g)"
  shows "while_loop (cpl_seek_body G) (g, step) = Some (NeverEnters (Step G g))"
  using assms by (subst while_loop.simps) (simp add: WillNeverEnter_def Let_def)

lemma body_returns_early:
  assumes "GetCurrentVolume G (FindNode G (fX r) (fY r) (fZ r) (SetCurrentPoint G (fX r) (fY r) (fZ r) g)) = Some v"
    and "IsOutside G (FindNode G (fX r) (fY r) (fZ r) (SetCurrentPoint G (fX r) (fY r) (fZ r) g))"
    and "cpl_seek_entry G (FindNode G (fX r) (fY r) (fZ r) (SetCurrentPoint G (fX r) (fY r) (fZ r) g)) =
         Some (NeverEnters g2)"
  shows "while_loop (cpl_body G s p) (False, c, r, g, pl) = Some (ReturnedEarly g2 pl)"
  using assms by (subst while_loop.simps) (simp add: Let_def)

lemma early_return_list:
  assumes "cpl_traverse G s g pl x p = Some (ReturnedEarly g' pl')"
  shows "pl' = pl"
proof -
  have "case ReturnedEarly g' pl' of ReturnedEarly g2 pl2 \<Rightarrow> pl2 = pl | _ \<Rightarrow> True"
  proof (rule while_loop_invariant [where I = "\<lambda>(f, c, r, g, pl2). \<not> f \<longrightarrow> pl2 = pl",
        OF assms [unfolded cpl_traverse_def Let_def]])
    show "case (False, True, \<lparr>fX = lvX x, fY = lvY x, fZ = lvZ x\<rparr>,
            SetCurrentDirection G (lvX p / lvP p) (lvY p / lvP p) (lvZ p / lvP p) g, pl) of
          (f, c, r, g, pl2) \<Rightarrow> \<not> f \<longrightarrow> pl2 = pl" by simp
  next
    fix st st' assume "case st of (f, c, r, g, pl2) \<Rightarrow> \<not> f \<longrightarrow> pl2 = pl"
      "cpl_body G s p st = Some (Inl st')"
    then show "case st' of (f, c, r, g, pl2) \<Rightarrow> \<not> f \<longrightarrow> pl2 = pl"
      by (cases st; cases st')
        (auto simp: Let_def split: if_splits option.splits seek_result.splits)
  next
    fix st e assume "case st of (f, c, r, g, pl2) \<Rightarrow> \<not> f \<longrightarrow> pl2 = pl"
      "cpl_body G s p st = Some (Inr e)"
    then show "case e of ReturnedEarly g2 pl2 \<Rightarrow> pl2 = pl | _ \<Rightarrow> True"
      by (cases st)
        (auto simp: Let_def split: if_splits option.splits seek_result.splits cpl_exit.splits)
  qed
  then show ?thesis by simp
qed

lemma seek_stays_in:
  assumes cl: "closed_under_navigation G N" and g: "g \<in> N"
    and run: "cpl_seek_entry G g = Some (Entered g2 step)"
  shows "g2 \<in> N \<and> step = GetStep G g2"
proof -
  have "case Entered g2 step of Entered g' s' \<Rightarrow> g' \<in> N \<and> s' = GetStep G g' | NeverEnters g' \<Rightarrow> True"
  proof (rule while_loop_invariant [where I = "\<lambda>(g, step). g \<in> N \<and> step = GetStep G g",
        OF run [unfolded cpl_seek_entry_def Let_def]])
    show "case (FindNextBoundary G g, GetStep G (FindNextBoundary G g)) of
            (g, step) \<Rightarrow> g \<in> N \<and> step = GetStep G g"
      using cl g by (simp add: closed_under_navigation_def)
  next
    fix st st' assume "case st of (g, step) \<Rightarrow> g \<in> N \<and> step = GetStep G g"
      "cpl_seek_body G st = Some (Inl st')"
    then show "case st' of (g, step) \<Rightarrow> g \<in> N \<and> step = GetStep G g"
      using cl by (cases st; cases st') (auto simp: closed_under_navigation_def Let_def split: if_splits)
  next
    fix st e assume "case st of (g, step) \<Rightarrow> g \<in> N \<and> step = GetStep G g"
      "cpl_seek_body G st = Some (Inr e)"
    then show "case e of Entered g' s' \<Rightarrow> g' \<in> N \<and> s' = GetStep G g' | NeverEnters g' \<Rightarrow> True"
      by (cases st) (auto simp: Let_def split: if_splits)
  qed
  then show ?thesis by simp
qed

lemma ray_point_advance:
  "TVector3_writes (cpl_advance_writes step p) (ray_point x p t) = ray_point x p (t + step)"
  by (simp add: TVector3_writes_def cpl_advance_writes_def TVector3_add_at_def ray_point_def
      add_divide_distrib distrib_right)

lemma never_inside_not_finished:
  assumes cl: "closed_under_navigation G N"
    and fw: "forward_steps G N"
    and g0: "SetCurrentDirection G (lvX p / lvP p) (lvY p / lvP p) (lvZ p / lvP p) g \<in> N"
    and out: "never_inside G N x p"
    and run: "cpl_traverse G s g pl x p = Some e"
  shows "case e of Finished g' pl' \<Rightarrow> False | _ \<Rightarrow> True"
proof (rule while_loop_invariant
    [where I = "\<lambda>(f, c, r, g, pl2). \<not> f \<and> g \<in> N \<and> (\<exists>t\<ge>0. r = ray_point x p t)",
      OF run [unfolded cpl_traverse_def Let_def]])
  have "\<lparr>fX = lvX x, fY = lvY x, fZ = lvZ x\<rparr> = ray_point x p 0"
    by (simp add: ray_point_def)
  then show "case (False, True, \<lparr>fX = lvX x, fY = lvY x, fZ = lvZ x\<rparr>,
          SetCurrentDirection G (lvX p / lvP p) (lvY p / lvP p) (lvZ p / lvP p) g, pl) of
        (f, c, r, g, pl2) \<Rightarrow> \<not> f \<and> g \<in> N \<and> (\<exists>t\<ge>0. r = ray_point x p t)"
    using g0 by auto
next
  fix st st'
  assume inv: "case st of (f, c, r, g, pl2) \<Rightarrow> \<not> f \<and> g \<in> N \<and> (\<exists>t\<ge>0. r = ray_point x p t)"
    and body: "cpl_body G s p st = Some (Inl st')"
  obtain f c r g1 pl1 where st: "st = (f, c, r, g1, pl1)" by (cases st) auto
  from inv st obtain t where f: "\<not> f" and g1: "g1 \<in> N" and t: "0 \<le> t" and r: "r = ray_point x p t"
    by auto
  let ?probe = "FindNode G (fX r) (fY r) (fZ r) (SetCurrentPoint G (fX r) (fY r) (fZ r) g1)"
  have outside: "IsOutside G ?probe" using out g1 r t by (simp add: never_inside_def)
  have probe: "?probe \<in> N" using cl g1 by (simp add: closed_under_navigation_def)
  from body st f outside obtain g2 step where
    seek: "cpl_seek_entry G ?probe = Some (Entered g2 step)"
    and st': "st' = (False, False, TVector3_writes (cpl_advance_writes step p) r, g2, pl1)"
    by (auto simp: Let_def split: option.splits seek_result.splits)
  from seek_stays_in [OF cl probe seek] have g2: "g2 \<in> N" and step: "step = GetStep G g2" by auto
  from fw g2 step have "0 \<le> step" by (simp add: forward_steps_def)
  with t have "0 \<le> t + step" by simp
  moreover have "TVector3_writes (cpl_advance_writes step p) r = ray_point x p (t + step)"
    by (simp add: r ray_point_advance)
  ultimately show "case st' of (f, c, r, g, pl2) \<Rightarrow> \<not> f \<and> g \<in> N \<and> (\<exists>t\<ge>0. r = ray_point x p t)"
    using g2 by (auto simp: st')
next
  fix st e
  assume inv: "case st of (f, c, r, g, pl2) \<Rightarrow> \<not> f \<and> g \<in> N \<and> (\<exists>t\<ge>0. r = ray_point x p t)"
    and body: "cpl_body G s p st = Some (Inr e)"
  obtain f c r g1 pl1 where st: "st = (f, c, r, g1, pl1)" by (cases st) auto
  from inv st have f: "\<not> f" by auto
  from body st f show "case e of Finished g' pl' \<Rightarrow> False | _ \<Rightarrow> True"
    by (auto simp: Let_def split: if_splits option.splits seek_result.splits cpl_exit.splits)
qed

text \<open>
  Claim C6, amended. The test is \<^verbatim>\<open>step > 9.99E29\<close> (strictly greater than the
  double 9.99E29), made only on the step read after a \<^verbatim>\<open>Step()\<close> in the
  entry-seeking loop, which runs while the navigator is not entering. (1) When such a step
  is strictly greater than 9.99E29 the entry-seeking loop ends at once; (2) the main loop
  then returns at once with the list as it is; (3) a call that returns this way returns the
  list it had set to zero, not rescaled, and that list is all-zero; (4) a call whose first
  probe is outside the geometry, whose navigator is not entering at the next boundary and
  reports a step greater than 9.99E29 after the first \<^verbatim>\<open>Step()\<close>, returns, and
  returns the zeroed list; (5) for a ray that never meets the geometry ahead of its start
  (at no distance t \<ge> 0), with a navigator that reports no negative step, every call that
  returns returns an all-zero list.
\<close>

theorem WillNeverEnter_returns_zero_list:
  "(\<not> IsEntering G gs \<and> double_9_99E29 < GetStep G (Step G gs) \<longrightarrow>
      while_loop (cpl_seek_body G) (gs, step) = Some (NeverEnters (Step G gs))) \<and>
   (GetCurrentVolume G (FindNode G (fX r) (fY r) (fZ r) (SetCurrentPoint G (fX r) (fY r) (fZ r) g)) = Some v \<and>
    IsOutside G (FindNode G (fX r) (fY r) (fZ r) (SetCurrentPoint G (fX r) (fY r) (fZ r) g)) \<and>
    cpl_seek_entry G (FindNode G (fX r) (fY r) (fZ r) (SetCurrentPoint G (fX r) (fY r) (fZ r) g)) =
      Some (NeverEnters g2) \<longrightarrow>
      while_loop (cpl_body G s p) (False, c, r, g, pl) = Some (ReturnedEarly g2 pl)) \<and>
   (fGeometry s = Some g0 \<and> fCurrPathLengthList s = Some pl0 \<and>
    cpl_traverse G s g0 (SetAllToZero pl0) x p = Some (ReturnedEarly g' pl') \<longrightarrow>
      ComputePathLengths G s x p =
        Some (Inr (s\<lparr>fGeometry := Some g', fCurrPathLengthList := Some (SetAllToZero pl0)\<rparr>)) \<and>
      AllZero (SetAllToZero pl0)) \<and>
   (fGeometry s = Some g0 \<and> fCurrPathLengthList s = Some pl0 \<and>
    b0 = FindNextBoundary G (FindNode G (lvX x) (lvY x) (lvZ x) (SetCurrentPoint G (lvX x) (lvY x) (lvZ x)
           (SetCurrentDirection G (lvX p / lvP p) (lvY p / lvP p) (lvZ p / lvP p) g0))) \<and>
    GetCurrentVolume G (FindNode G (lvX x) (lvY x) (lvZ x) (SetCurrentPoint G (lvX x) (lvY x) (lvZ x)
           (SetCurrentDirection G (lvX p / lvP p) (lvY p / lvP p) (lvZ p / lvP p) g0))) = Some v \<and>
    IsOutside G (FindNode G (lvX x) (lvY x) (lvZ x) (SetCurrentPoint G (lvX x) (lvY x) (lvZ x)
           (SetCurrentDirection G (lvX p / lvP p) (lvY p / lvP p) (lvZ p / lvP p) g0))) \<and>
    \<not> IsEntering G b0 \<and> double_9_99E29 < GetStep G (Step G b0) \<longrightarrow>
      ComputePathLengths G s x p =
        Some (Inr (s\<lparr>fGeometry := Some (Step G b0), fCurrPathLengthList := Some (SetAllToZero pl0)\<rparr>))) \<and>
   (fGeometry s = Some g0 \<and> closed_under_navigation G N \<and> forward_steps G N \<and>
    SetCurrentDirection G (lvX p / lvP p) (lvY p / lvP p) (lvZ p / lvP p) g0 \<in> N \<and>
    never_inside G N x p \<and> ComputePathLengths G s x p = Some (Inr s') \<longrightarrow>
      (\<exists>pl. fCurrPathLengthList s' = Some pl \<and> AllZero pl))"
proof (intro conjI impI)
  assume "\<not> IsEntering G gs \<and> double_9_99E29 < GetStep G (Step G gs)"
  then show "while_loop (cpl_seek_body G) (gs, step) = Some (NeverEnters (Step G gs))"
    by (simp add: seek_never_enters)
next
  assume "GetCurrentVolume G (FindNode G (fX r) (fY r) (fZ r) (SetCurrentPoint G (fX r) (fY r) (fZ r) g)) = Some v \<and>
    IsOutside G (FindNode G (fX r) (fY r) (fZ r) (SetCurrentPoint G (fX r) (fY r) (fZ r) g)) \<and>
    cpl_seek_entry G (FindNode G (fX r) (fY r) (fZ r) (SetCurrentPoint G (fX r) (fY r) (fZ r) g)) =
      Some (NeverEnters g2)"
  then show "while_loop (cpl_body G s p) (False, c, r, g, pl) = Some (ReturnedEarly g2 pl)"
    by (intro body_returns_early) auto
next
  assume h: "fGeometry s = Some g0 \<and> fCurrPathLengthList s = Some pl0 \<and>
    cpl_traverse G s g0 (SetAllToZero pl0) x p = Some (ReturnedEarly g' pl')"
  then have "pl' = SetAllToZero pl0" by (intro early_return_list) auto
  with h show "ComputePathLengths G s x p =
        Some (Inr (s\<lparr>fGeometry := Some g', fCurrPathLengthList := Some (SetAllToZero pl0)\<rparr>))"
    by (auto simp: ComputePathLengths_def)
next
  show "AllZero (SetAllToZero pl0)" by (rule AllZero_SetAllToZero)
next
  let ?d = "SetCurrentDirection G (lvX p / lvP p) (lvY p / lvP p) (lvZ p / lvP p) g0"
  let ?probe = "FindNode G (lvX x) (lvY x) (lvZ x) (SetCurrentPoint G (lvX x) (lvY x) (lvZ x) ?d)"
  assume h: "fGeometry s = Some g0 \<and> fCurrPathLengthList s = Some pl0 \<and>
    b0 = FindNextBoundary G ?probe \<and> GetCurrentVolume G ?probe = Some v \<and> IsOutside G ?probe \<and>
    \<not> IsEntering G b0 \<and> double_9_99E29 < GetStep G (Step G b0)"
  then have "while_loop (cpl_seek_body G) (b0, GetStep G b0) = Some (NeverEnters (Step G b0))"
    by (intro seek_never_enters) auto
  with h have seek: "cpl_seek_entry G ?probe = Some (NeverEnters (Step G b0))"
    by (simp add: cpl_seek_entry_def Let_def)
  have "while_loop (cpl_body G s p)
          (False, True, \<lparr>fX = lvX x, fY = lvY x, fZ = lvZ x\<rparr>, ?d, SetAllToZero pl0) =
        Some (ReturnedEarly (Step G b0) (SetAllToZero pl0))"
    using h seek by (intro body_returns_early [where v = v]) auto
  then have "cpl_traverse G s g0 (SetAllToZero pl0) x p =
             Some (ReturnedEarly (Step G b0) (SetAllToZero pl0))"
    by (simp add: cpl_traverse_def Let_def del: cpl_body.simps)
  with h show "ComputePathLengths G s x p =
        Some (Inr (s\<lparr>fGeometry := Some (Step G b0), fCurrPathLengthList := Some (SetAllToZero pl0)\<rparr>))"
    by (auto simp: ComputePathLengths_def)
next
  assume h: "fGeometry s = Some g0 \<and> closed_under_navigation G N \<and> forward_steps G N \<and>
    SetCurrentDirection G (lvX p / lvP p) (lvY p / lvP p) (lvZ p / lvP p) g0 \<in> N \<and>
    never_inside G N x p \<and> ComputePathLengths G s x p = Some (Inr s')"
  then obtain pl0 where pl0: "fCurrPathLengthList s = Some pl0"
    by (auto simp: ComputePathLengths_def split: option.splits)
  from h pl0 obtain e where e: "cpl_traverse G s g0 (SetAllToZero pl0) x p = Some e"
    by (auto simp: ComputePathLengths_def split: option.splits)
  have nf: "case e of Finished g' pl' \<Rightarrow> False | _ \<Rightarrow> True"
    using h by (intro never_inside_not_finished [OF _ _ _ _ e]) auto
  show "\<exists>pl. fCurrPathLengthList s' = Some pl \<and> AllZero pl"
  proof (cases e)
    case (Finished g' pl')
    with nf show ?thesis by simp
  next
    case (ReturnedEarly g' pl')
    with e have "pl' = SetAllToZero pl0" by (intro early_return_list) auto
    with h pl0 e ReturnedEarly show ?thesis
      by (auto simp: ComputePathLengths_def AllZero_SetAllToZero)
  next
    case Crashed
    with h pl0 e show ?thesis by (auto simp: ComputePathLengths_def)
  qed
qed

lemma fold_min_in: "fold min ts (t :: real) \<in> set (t # ts)"
proof (induction ts arbitrary: t)
  case Nil
  show ?case by simp
next
  case (Cons a ts)
  from Cons [of "min a t"] show ?case by (auto simp: min_def split: if_splits)
qed

lemma nearest_in: "nearest ts = Some t \<Longrightarrow> t \<in> set ts"
  using fold_min_in by (cases ts) (auto simp: nearest_def)

lemma nav_boundary_forward:
  assumes "0 \<le> nbig n"
  shows "0 \<le> nstep (nav_boundary n)"
proof (cases "nearest (concat (map (box_crossings (npoint n) (ndir n)) (nworld n)))")
  case None
  with assms show ?thesis by (simp add: nav_boundary_def)
next
  case (Some t)
  from nearest_in [OF Some] have "0 < t" by (auto simp: box_crossings_def)
  with Some show ?thesis by (simp add: nav_boundary_def)
qed

lemma nav_boundary_keeps: "nworld (nav_boundary n) = nworld n \<and> nbig (nav_boundary n) = nbig n"
  by (simp add: nav_boundary_def split: option.splits)

text \<open>
  Claim C6, as stated, fails twice. A slab that begins at x = 9.99E29 (and is 2^50 thick,
  so that both faces are doubles): the navigator reports the step 9.99E29 and that it is
  entering, no test is made, and the call goes on to return 2^50 times the density 2 for
  argon. A navigator whose largest step is exactly 9.99E29, on a ray that passes the slab:
  every step read after \<^verbatim>\<open>Step()\<close> is 9.99E29, the test
  \<^verbatim>\<open>step > 9.99E29\<close> fails each time, and the call never returns.
\<close>

theorem WillNeverEnter_threshold_counterexample:
  "GetStep BoxNavigator (FindNextBoundary BoxNavigator
     (FindNode BoxNavigator 0 (1/2) (1/2) (SetCurrentDirection BoxNavigator 1 0 0 far_slab))) = double_9_99E29 \<and>
   returned_lengths (ComputePathLengths BoxNavigator (analyzer0 (Some far_slab) [1040018000])
     (x_start 0) x_momentum) = Some (Inr (Some [(1040018000, 2251799813685248)])) \<and>
   \<not> AllZero [(1040018000, 2251799813685248)] \<and>
   GetStep BoxNavigator (Step BoxNavigator (FindNextBoundary BoxNavigator
     (FindNode BoxNavigator (- 1) 5 (1/2)
        (SetCurrentDirection BoxNavigator 1 0 0 (one_slab double_9_99E29))))) = double_9_99E29 \<and>
   ComputePathLengths BoxNavigator (analyzer0 (Some (one_slab double_9_99E29)) [1040018000])
     passing_start x_momentum = None"
proof (intro conjI)
  show "GetStep BoxNavigator (FindNextBoundary BoxNavigator
     (FindNode BoxNavigator 0 (1/2) (1/2) (SetCurrentDirection BoxNavigator 1 0 0 far_slab))) = double_9_99E29"
    by (simp add: nav_defs world_defs double_9_99E29_def double_1E30_def)
  show "returned_lengths (ComputePathLengths BoxNavigator (analyzer0 (Some far_slab) [1040018000])
     (x_start 0) x_momentum) = Some (Inr (Some [(1040018000, 2251799813685248)]))"
    by (simp add: cpl_defs nav_defs world_defs)
  show "\<not> AllZero [(1040018000, 2251799813685248)]" by (simp add: AllZero_def)
  show "GetStep BoxNavigator (Step BoxNavigator (FindNextBoundary BoxNavigator
     (FindNode BoxNavigator (- 1) 5 (1/2)
        (SetCurrentDirection BoxNavigator 1 0 0 (one_slab double_9_99E29))))) = double_9_99E29"
    by (simp add: nav_defs world_defs)
  let ?I = "\<lambda>(n, step :: real). nworld n = [slab 0 1 (solid 40 18 2)] \<and> fY (npoint n) = 5 \<and>
              fY (ndir n) = 0 \<and> nbig n = double_9_99E29 \<and> \<not> nentering n"
  let ?probe = "FindNode BoxNavigator (- 1) 5 (1/2)
        (SetCurrentPoint BoxNavigator (- 1) 5 (1/2)
           (SetCurrentDirection BoxNavigator 1 0 0 (one_slab double_9_99E29)))"
  have seek: "cpl_seek_entry BoxNavigator ?probe = None"
    unfolding cpl_seek_entry_def Let_def
  proof (rule while_loop_diverges [where I = ?I])
    show "?I (FindNextBoundary BoxNavigator ?probe, GetStep BoxNavigator (FindNextBoundary BoxNavigator ?probe))"
      by (simp add: BoxNavigator_def one_slab_def nav0_def passing_ray_outside)
  next
    fix st :: "navigator \<times> real"
    assume inv: "?I st"
    obtain n step where st: "st = (n, step)" by (cases st) auto
    have "nav_step n = n\<lparr>npoint := ray_at (npoint n) (ndir n) (nstep n), nstep := nbig n, nentering := False\<rparr>"
      using inv st by (simp add: nav_step_def passing_ray_outside ray_at_def)
    with inv st show "\<exists>st'. cpl_seek_body BoxNavigator st = Some (Inl st') \<and> ?I st'"
      by (simp add: BoxNavigator_def WillNeverEnter_def ray_at_def)
  qed
  have out: "nav_find ?probe = None"
    by (simp add: BoxNavigator_def one_slab_def nav0_def passing_ray_outside)
  show "ComputePathLengths BoxNavigator (analyzer0 (Some (one_slab double_9_99E29)) [1040018000])
     passing_start x_momentum = None"
    using seek out
    by (simp add: ComputePathLengths_def cpl_traverse_def analyzer0_def passing_start_def
        x_momentum_def lvP_def Let_def while_loop.simps [of _ "(False, True, _)"])
      (simp add: BoxNavigator_def)
qed

text \<open>
  The amended claim on a ray that points away from the slab, from x = 3 along +x, with a
  navigator whose largest step is 1E30: the entry-seeking loop ends after one
  \<^verbatim>\<open>Step()\<close>, and the call returns the zeroed list.
\<close>

theorem WillNeverEnter_returns_zero_list_witness:
  "while_loop (cpl_seek_body BoxNavigator)
     (FindNextBoundary BoxNavigator (FindNode BoxNavigator 3 (1/2) (1/2)
        (SetCurrentPoint BoxNavigator 3 (1/2) (1/2)
           (SetCurrentDirection BoxNavigator 1 0 0 (one_slab double_1E30)))), double_1E30) =
   Some (NeverEnters ((one_slab double_1E30)
     \<lparr>npoint := \<lparr>fX = 3 + double_1E30, fY = 1/2, fZ = 1/2\<rparr>, ndir := \<lparr>fX = 1, fY = 0, fZ = 0\<rparr>,
      nstep := double_1E30\<rparr>)) \<and>
   ComputePathLengths BoxNavigator (analyzer0 (Some (one_slab double_1E30)) [1040018000])
     (x_start 3) x_momentum =
   Some (Inr ((analyzer0 (Some (one_slab double_1E30)) [1040018000])
     \<lparr>fGeometry := Some ((one_slab double_1E30)
        \<lparr>npoint := \<lparr>fX = 3 + double_1E30, fY = 1/2, fZ = 1/2\<rparr>, ndir := \<lparr>fX = 1, fY = 0, fZ = 0\<rparr>,
         nstep := double_1E30\<rparr>),
      fCurrPathLengthList := Some [(1040018000, 0)]\<rparr>)) \<and>
   AllZero [(1040018000, 0)] \<and>
   closed_under_navigation BoxNavigator
     {n. nworld n = [slab 0 1 (solid 40 18 2)] \<and> 0 \<le> nstep n \<and> 0 \<le> nbig n} \<and>
   forward_steps BoxNavigator
     {n. nworld n = [slab 0 1 (solid 40 18 2)] \<and> 0 \<le> nstep n \<and> 0 \<le> nbig n} \<and>
   never_inside BoxNavigator
     {n. nworld n = [slab 0 1 (solid 40 18 2)] \<and> 0 \<le> nstep n \<and> 0 \<le> nbig n} (x_start 3) x_momentum"
proof -
  let ?W = "[slab 0 1 (solid 40 18 2)]"
  let ?N = "{n. nworld n = ?W \<and> 0 \<le> nstep n \<and> 0 \<le> nbig n}"
  let ?s = "analyzer0 (Some (one_slab double_1E30)) [1040018000]"
  let ?d = "SetCurrentDirection BoxNavigator 1 0 0 (one_slab double_1E30)"
  let ?r = "\<lparr>fX = 3, fY = 1/2, fZ = 1/2\<rparr>"
  let ?probe = "FindNode BoxNavigator 3 (1/2) (1/2) (SetCurrentPoint BoxNavigator 3 (1/2) (1/2) ?d)"
  let ?b = "FindNextBoundary BoxNavigator ?probe"
  let ?fin = "(one_slab double_1E30)
     \<lparr>npoint := \<lparr>fX = 3 + double_1E30, fY = 1/2, fZ = 1/2\<rparr>, ndir := \<lparr>fX = 1, fY = 0, fZ = 0\<rparr>,
      nstep := double_1E30\<rparr>"
  let ?res = "?s\<lparr>fGeometry := Some ?fin, fCurrPathLengthList := Some [(1040018000, 0)]\<rparr>"
  note inst = WillNeverEnter_returns_zero_list [where G = BoxNavigator and gs = ?b and g = ?d
      and step = double_1E30
      and r = ?r and v = "solid 0 0 0" and ?g2.0 = ?fin and s = ?s and p = x_momentum and c = True
      and pl = "[(1040018000, 0)]" and ?g0.0 = "one_slab double_1E30" and ?pl0.0 = "[(1040018000, 0)]"
      and x = "x_start 3" and g' = ?fin and pl' = "[(1040018000, 0)]" and N = ?N and ?b0.0 = ?b
      and s' = ?res]
  have big: "0 < double_1E30" by (simp add: double_1E30_def)
  have step: "Step BoxNavigator ?b = ?fin"
    using big by (simp add: nav_defs world_defs)
  have h1: "\<not> IsEntering BoxNavigator ?b \<and> double_9_99E29 < GetStep BoxNavigator (Step BoxNavigator ?b)"
    by (simp add: nav_defs world_defs double_9_99E29_def double_1E30_def)
  from inst h1 step
  have seek: "while_loop (cpl_seek_body BoxNavigator) (?b, double_1E30) = Some (NeverEnters ?fin)"
    by simp
  have h2: "GetCurrentVolume BoxNavigator ?probe = Some (solid 0 0 0) \<and> IsOutside BoxNavigator ?probe"
    by (simp add: nav_defs world_defs)
  have h3: "fGeometry ?s = Some (one_slab double_1E30) \<and> fCurrPathLengthList ?s = Some [(1040018000, 0)]"
    by (simp add: analyzer0_def)
  have xp: "lvX (x_start 3) = 3 \<and> lvY (x_start 3) = 1/2 \<and> lvZ (x_start 3) = 1/2 \<and>
            lvX x_momentum / lvP x_momentum = 1 \<and> lvY x_momentum / lvP x_momentum = 0 \<and>
            lvZ x_momentum / lvP x_momentum = 0"
    by (simp add: x_start_def x_momentum_def lvP_def)
  from inst h1 h2 h3 step
  have run: "ComputePathLengths BoxNavigator ?s (x_start 3) x_momentum = Some (Inr ?res)"
    by (simp add: xp SetAllToZero_def)
  have closed: "closed_under_navigation BoxNavigator ?N"
    by (auto simp: closed_under_navigation_def BoxNavigator_def nav_step_def nav_boundary_keeps
        nav_boundary_forward)
  have forward: "forward_steps BoxNavigator ?N"
    by (simp add: forward_steps_def BoxNavigator_def)
  have never: "never_inside BoxNavigator ?N (x_start 3) x_momentum"
    by (simp add: never_inside_def BoxNavigator_def nav_find_def in_box_def axis_inside_def
        slab_def ray_point_def x_start_def x_momentum_def lvP_def)
  have dN: "SetCurrentDirection BoxNavigator (lvX x_momentum / lvP x_momentum)
      (lvY x_momentum / lvP x_momentum) (lvZ x_momentum / lvP x_momentum) (one_slab double_1E30) \<in> ?N"
    by (simp add: BoxNavigator_def one_slab_def nav0_def double_1E30_def)
  from inst h3 closed forward dN never run
  have "AllZero [(1040018000, 0)]" by simp
  with seek run closed forward never show ?thesis by simp
qed

section \<open>The scan for the maximum path lengths\<close>

lemma BoxNavigator_simps:
  "SetCurrentDirection BoxNavigator a b c n = n\<lparr>ndir := \<lparr>fX = a, fY = b, fZ = c\<rparr>\<rparr>"
  "SetCurrentPoint BoxNavigator a b c n = n\<lparr>npoint := \<lparr>fX = a, fY = b, fZ = c\<rparr>\<rparr>"
  "FindNode BoxNavigator a b c n = n\<lparr>npoint := \<lparr>fX = a, fY = b, fZ = c\<rparr>, nstep := 0, nentering := False\<rparr>"
  "GetCurrentVolume BoxNavigator n = (case nav_find n of None \<Rightarrow> Some (ntop n) | Some b \<Rightarrow> Some (bvol b))"
  "IsOutside BoxNavigator n = (nav_find n = None)"
  "FindNextBoundary BoxNavigator = nav_boundary"
  "GetStep BoxNavigator = nstep"
  "IsEntering BoxNavigator = nentering"
  "Step BoxNavigator = nav_step"
  "IonPdgCode BoxNavigator A Z = 1000000000 + A * 1000000 + Z * 1000"
  by (simp_all add: BoxNavigator_def)

lemma scanner_simps:
  "fGeometry (scanner np nr) = Some halves"
  "fTopVolume (scanner np nr) = Some cube"
  "fCurrMaxPathLengthList (scanner np nr) = Some [(1040018000, 0), (1056026000, 0)]"
  "fCurrPDGCodeList (scanner np nr) = Some [1040018000, 1056026000]"
  "fScale (scanner np nr) = 1" "fNPoints (scanner np nr) = np" "fNRays (scanner np nr) = nr"
  "fDensWeight (scanner np nr) = True"
  by (simp_all add: scanner_def analyzer0_def)

lemmas nav_run = BoxNavigator_simps nav_boundary_def nav_step_def nav_find_def box_crossings_def
  axis_planes_def on_box_def ray_at_def in_box_def axis_inside_def nearest_def nav0_def slab_def
  solid_def water_def no_shape_def

lemmas scan_defs = ComputeMaxPathLengths_def ComputeMaxPathLengthPDG_def normalise_def Rndm_def
  scanner_simps scan_draws_def halves_def cube_def returned_maxima_def real_sqrt_divide
  next_boundary_step_def while_loop.simps Let_def GetTargetPdgCode_def GetWeight_def int_of_double_def
  SetAllToZero_def AddPathLength_def ScalePathLength_def ScalePathLengths_def

lemma scan_points_2:
  "scan_points G s b f pdgc 2 st = scan_points G s b f pdgc (Suc (Suc 0)) st"
  by (simp only: numeral_2_eq_2)

lemma scan_rays_add:
  "scan_rays G s f pdgc xyz (n + k) st =
   (case scan_rays G s f pdgc xyz n st of None \<Rightarrow> None | Some st' \<Rightarrow> scan_rays G s f pdgc xyz k st')"
proof (induction n arbitrary: st)
  case 0
  show ?case by simp
next
  case (Suc n)
  obtain rg g M where st: "st = (rg, g, M)" by (cases st) auto
  show ?case
    by (simp add: st Suc Let_def split: prod.splits option.splits)
qed

lemma scan_rays_nondecreasing:
  "scan_rays G s f pdgc xyz n (rg, g, M) = Some (rg', g', M') \<Longrightarrow> M \<le> M'"
proof (induction n arbitrary: rg g M)
  case 0
  then show ?case by simp
next
  case (Suc n)
  then show ?case
    by (auto simp: Let_def split: prod.splits option.splits if_splits dest: Suc.IH)
qed

lemma scan_points_add:
  "scan_points G s b f pdgc (n + k) st =
   (case scan_points G s b f pdgc n st of None \<Rightarrow> None | Some st' \<Rightarrow> scan_points G s b f pdgc k st')"
proof (induction n arbitrary: st)
  case 0
  show ?case by simp
next
  case (Suc n)
  obtain rg g M where st: "st = (rg, g, M)" by (cases st) auto
  show ?case
    by (simp add: st Suc Let_def split: prod.splits option.splits)
qed

lemma scan_points_nondecreasing:
  "scan_points G s b f pdgc n (rg, g, M) = Some (rg', g', M') \<Longrightarrow> M \<le> M'"
proof (induction n arbitrary: rg g M)
  case 0
  then show ?case by simp
next
  case (Suc n)
  from Suc.prems obtain rg1 g1 M1 where
    rays: "scan_rays G s f pdgc (face_point f b (fst (Rndm rg)) (fst (Rndm (snd (Rndm rg)))))
             (nat (fNRays s)) (snd (Rndm (snd (Rndm rg))), g, M) = Some (rg1, g1, M1)"
    and rest: "scan_points G s b f pdgc n (rg1, g1, M1) = Some (rg', g', M')"
    by (auto simp: Let_def split: prod.splits option.splits)
  from scan_rays_nondecreasing [OF rays] Suc.IH [OF rest] show ?case by simp
qed

lemma scan_faces_nondecreasing:
  "scan_faces G s b pdgc fs (rg, g, M) = Some (rg', g', M') \<Longrightarrow> M \<le> M'"
proof (induction fs arbitrary: rg g M)
  case Nil
  then show ?case by simp
next
  case (Cons f fs)
  from Cons.prems obtain rg1 g1 M1 where
    pts: "scan_points G s b f pdgc (nat (fNPoints s)) (rg, g, M) = Some (rg1, g1, M1)"
    and rest: "scan_faces G s b pdgc fs (rg1, g1, M1) = Some (rg', g', M')"
    by (auto split: option.splits)
  from scan_points_nondecreasing [OF pts] Cons.IH [OF rest] show ?case by simp
qed

text \<open>
  Claim C10, amended. \<open>MaxPath\<close> is a running maximum over the samples of one scan:
  scanning \<open>k\<close> more rays from a surface point after the first \<open>n\<close>, or \<open>k\<close> more
  points of a face after the first \<open>n\<close>, gives a maximum that is at least the one after
  \<open>n\<close>, and no face scanned lowers it.
\<close>

theorem MaxPath_running_maximum:
  "(scan_rays G s f pdgc xyz (n + k) st = Some (rg2, g2, M2) \<longrightarrow>
      (\<exists>rg1 g1 M1. scan_rays G s f pdgc xyz n st = Some (rg1, g1, M1) \<and> M1 \<le> M2)) \<and>
   (scan_points G s b f pdgc (n + k) st = Some (rg2, g2, M2) \<longrightarrow>
      (\<exists>rg1 g1 M1. scan_points G s b f pdgc n st = Some (rg1, g1, M1) \<and> M1 \<le> M2)) \<and>
   (scan_faces G s b pdgc fs (rg, g, M) = Some (rg', g', M') \<longrightarrow> M \<le> M')"
proof (intro conjI impI)
  assume "scan_rays G s f pdgc xyz (n + k) st = Some (rg2, g2, M2)"
  then show "\<exists>rg1 g1 M1. scan_rays G s f pdgc xyz n st = Some (rg1, g1, M1) \<and> M1 \<le> M2"
    by (auto simp: scan_rays_add split: option.splits dest: scan_rays_nondecreasing)
next
  assume "scan_points G s b f pdgc (n + k) st = Some (rg2, g2, M2)"
  then show "\<exists>rg1 g1 M1. scan_points G s b f pdgc n st = Some (rg1, g1, M1) \<and> M1 \<le> M2"
    by (auto simp: scan_points_add split: option.splits dest: scan_points_nondecreasing)
next
  assume "scan_faces G s b pdgc fs (rg, g, M) = Some (rg', g', M')"
  then show "M \<le> M'" by (rule scan_faces_nondecreasing)
qed

theorem MaxPath_running_maximum_witness:
  "scan_rays BoxNavigator (scanner 1 1) Left 1040018000 \<lparr>fX = - 1, fY = 1/2, fZ = - (1/2)\<rparr> (1 + 1)
     (half_draws, halves, 0) =
   Some (half_draws\<lparr>drawn := 6\<rparr>,
         halves\<lparr>npoint := \<lparr>fX = 1, fY = 1/2, fZ = - (1/2)\<rparr>, ndir := \<lparr>fX = 1, fY = 0, fZ = 0\<rparr>\<rparr>, 2) \<and>
   (\<exists>rg1 g1 M1. scan_rays BoxNavigator (scanner 1 1) Left 1040018000 \<lparr>fX = - 1, fY = 1/2, fZ = - (1/2)\<rparr> 1
     (half_draws, halves, 0) = Some (rg1, g1, M1) \<and> M1 \<le> 2) \<and>
   scan_points BoxNavigator (scanner 1 1) (volShape cube) Left 1040018000 (1 + 1) (half_draws, halves, 0) =
   Some (half_draws\<lparr>drawn := 10\<rparr>,
         halves\<lparr>npoint := \<lparr>fX = 1, fY = 0, fZ = 0\<rparr>, ndir := \<lparr>fX = 1, fY = 0, fZ = 0\<rparr>\<rparr>, 2) \<and>
   (\<exists>rg1 g1 M1. scan_points BoxNavigator (scanner 1 1) (volShape cube) Left 1040018000 1
     (half_draws, halves, 0) = Some (rg1, g1, M1) \<and> M1 \<le> 2) \<and>
   scan_faces BoxNavigator (scanner 1 1) (volShape cube) 1040018000 [Top] (half_draws, halves, 0) =
   Some (half_draws\<lparr>drawn := 5\<rparr>,
         halves\<lparr>npoint := \<lparr>fX = 0, fY = - 1, fZ = 0\<rparr>, ndir := \<lparr>fX = 0, fY = - 1, fZ = 0\<rparr>\<rparr>, 1) \<and>
   (0 :: real) \<le> 1"
proof -
  have r: "scan_rays BoxNavigator (scanner 1 1) Left 1040018000 \<lparr>fX = - 1, fY = 1/2, fZ = - (1/2)\<rparr> (1 + 1)
      (half_draws, halves, 0) =
    Some (half_draws\<lparr>drawn := 6\<rparr>,
          halves\<lparr>npoint := \<lparr>fX = 1, fY = 1/2, fZ = - (1/2)\<rparr>, ndir := \<lparr>fX = 1, fY = 0, fZ = 0\<rparr>\<rparr>, 2)"
    by (simp add: scan_defs nav_run half_draws_def cong: let_weak_cong prod.case_cong_weak)
  have p: "scan_points BoxNavigator (scanner 1 1) (volShape cube) Left 1040018000 (1 + 1) (half_draws, halves, 0) =
    Some (half_draws\<lparr>drawn := 10\<rparr>,
          halves\<lparr>npoint := \<lparr>fX = 1, fY = 0, fZ = 0\<rparr>, ndir := \<lparr>fX = 1, fY = 0, fZ = 0\<rparr>\<rparr>, 2)"
    by (simp add: scan_defs nav_run half_draws_def cong: let_weak_cong prod.case_cong_weak)
  have f: "scan_faces BoxNavigator (scanner 1 1) (volShape cube) 1040018000 [Top] (half_draws, halves, 0) =
    Some (half_draws\<lparr>drawn := 5\<rparr>,
          halves\<lparr>npoint := \<lparr>fX = 0, fY = - 1, fZ = 0\<rparr>, ndir := \<lparr>fX = 0, fY = - 1, fZ = 0\<rparr>\<rparr>, 1)"
    by (simp add: scan_defs nav_run half_draws_def cong: let_weak_cong prod.case_cong_weak)
  note inst = MaxPath_running_maximum [where G = BoxNavigator and s = "scanner 1 1" and f = Left
      and pdgc = 1040018000 and n = 1 and k = 1 and st = "(half_draws, halves, 0)" and ?M2.0 = 2]
  from inst [where xyz = "\<lparr>fX = - 1, fY = 1/2, fZ = - (1/2)\<rparr>"
      and ?rg2.0 = "half_draws\<lparr>drawn := 6\<rparr>"
      and ?g2.0 = "halves\<lparr>npoint := \<lparr>fX = 1, fY = 1/2, fZ = - (1/2)\<rparr>, ndir := \<lparr>fX = 1, fY = 0, fZ = 0\<rparr>\<rparr>"] r
  have r1: "\<exists>rg1 g1 M1. scan_rays BoxNavigator (scanner 1 1) Left 1040018000 \<lparr>fX = - 1, fY = 1/2, fZ = - (1/2)\<rparr> 1
     (half_draws, halves, 0) = Some (rg1, g1, M1) \<and> M1 \<le> 2"
    by blast
  from inst [where b = "volShape cube" and ?rg2.0 = "half_draws\<lparr>drawn := 10\<rparr>"
      and ?g2.0 = "halves\<lparr>npoint := \<lparr>fX = 1, fY = 0, fZ = 0\<rparr>, ndir := \<lparr>fX = 1, fY = 0, fZ = 0\<rparr>\<rparr>"] p
  have p1: "\<exists>rg1 g1 M1. scan_points BoxNavigator (scanner 1 1) (volShape cube) Left 1040018000 1
     (half_draws, halves, 0) = Some (rg1, g1, M1) \<and> M1 \<le> 2"
    by blast
  from inst [where b = "volShape cube" and fs = "[Top]" and rg = half_draws and g = halves and M = 0
      and rg' = "half_draws\<lparr>drawn := 5\<rparr>"
      and g' = "halves\<lparr>npoint := \<lparr>fX = 0, fY = - 1, fZ = 0\<rparr>, ndir := \<lparr>fX = 0, fY = - 1, fZ = 0\<rparr>\<rparr>"
      and M' = 1] f
  have f1: "(0 :: real) \<le> 1" by blast
  from r r1 p p1 f f1 show ?thesis by blast
qed

text \<open>
  Claim C10, as stated, fails: the random source is one sequence that every sample
  draws from in turn, so another number of points or rays gives other samples, not more
  of the same. In the cube of argon over iron, with the sequence \<open>scan_draws\<close> and one
  ray per point, one point per face records 2 for argon and two points per face record 1.
\<close>

theorem sample_counts_counterexample:
  "returned_maxima (ComputeMaxPathLengths BoxNavigator (scanner 1 1) scan_draws) =
     Some (Inr (Some [(1040018000, 2), (1056026000, 16)])) \<and>
   returned_maxima (ComputeMaxPathLengths BoxNavigator (scanner 2 1) scan_draws) =
     Some (Inr (Some [(1040018000, 1), (1056026000, 16)])) \<and>
   PathLength [(1040018000, 1), (1056026000, 16)] 1040018000 <
   PathLength [(1040018000, 2), (1056026000, 16)] 1040018000"
proof (intro conjI)
  show "returned_maxima (ComputeMaxPathLengths BoxNavigator (scanner 1 1) scan_draws) =
     Some (Inr (Some [(1040018000, 2), (1056026000, 16)]))"
    by (simp add: scan_defs nav_run cong: let_weak_cong prod.case_cong_weak)
  show "returned_maxima (ComputeMaxPathLengths BoxNavigator (scanner 2 1) scan_draws) =
     Some (Inr (Some [(1040018000, 1), (1056026000, 16)]))"
    by (simp add: scan_defs nav_run scan_points_2 cong: let_weak_cong prod.case_cong_weak)
  show "PathLength [(1040018000, 1), (1056026000, 16)] 1040018000 <
        PathLength [(1040018000, 2), (1056026000, 16)] 1040018000"
    by (simp add: PathLength_def)
qed

end
